theory Spec2Isabelle
  imports Main "HOL-Library.Sublist"
begin

section \<open>Data model of libimage pull and save\<close>

text \<open>
  The two source files (\<^verbatim>\<open>libimage/pull.go\<close> and \<^verbatim>\<open>libimage/save.go\<close>) are embedded
  with explicit state passing.  The state is the chronological list of effects the code has
  performed so far: calls into the local store, the short-name resolver, the copier, the
  archive writers, the logger, the caller's writer and the event channel.  The external
  collaborators are parameters: a pure one (parsing, normalisation) is a function of its
  arguments, a stateful one (store, registry, copier, context) is a function of the effects
  so far and of its arguments, so that a store whose answers change after a copy is one of
  the worlds quantified over.  Every \<^verbatim>\<open>return nil, err\<close> of the source is an \<open>Inl\<close> branch.
\<close>

subsection \<open>Pull policies, references, images\<close>

text \<open>\<^verbatim>\<open>config.PullPolicy\<close>; \<^verbatim>\<open>Validate\<close> accepts the four real policies only.\<close>

datatype pull_policy =
    PullPolicyAlways
  | PullPolicyMissing
  | PullPolicyNewer
  | PullPolicyNever
  | PullPolicyUnsupported

text \<open>
  \<^verbatim>\<open>reference.Named\<close>: a repository name with an optional tag and an optional digest.
  The type assertion \<^verbatim>\<open>named.(reference.NamedTagged)\<close> succeeds when a tag is present.
\<close>

datatype named = Named (repository: string) (tag_of: "string option") (digest_of: "string option")

definition withTag :: "named \<Rightarrow> bool" where
  "withTag n = (tag_of n \<noteq> None)"

definition named_String :: "named \<Rightarrow> string" where
  "named_String n =
     repository n
     @ (case tag_of n of None \<Rightarrow> [] | Some t \<Rightarrow> CHR '':'' # t)
     @ (case digest_of n of None \<Rightarrow> [] | Some d \<Rightarrow> CHR ''@'' # d)"

definition TrimNamed :: "named \<Rightarrow> named" where
  "TrimNamed n = Named (repository n) None None"

text \<open>\<^verbatim>\<open>types.ImageReference\<close>: the transport's name and the docker reference, which may be nil.\<close>

record image_ref =
  Transport_Name :: string
  DockerReference :: "named option"

definition registryTransport_Name :: string where
  "registryTransport_Name = ''docker''"

definition dockerArchiveTransport_Name :: string where
  "dockerArchiveTransport_Name = ''docker-archive''"

text \<open>\<^verbatim>\<open>*Image\<close>: only \<^verbatim>\<open>image.ID()\<close> is read by the two files.\<close>

datatype image = Image (ID: string)

subsection \<open>Errors\<close>

text \<open>
  An error that a collaborator returns is either one that wraps the sentinel
  \<^verbatim>\<open>storage.ErrImageUnknown\<close> (the local store's answer for an image it does not have) or
  some other failure.
\<close>

datatype ext_error = StorageErrImageUnknown string | Failure string

text \<open>
  One constructor per error the two files create, \<open>ErrExternal\<close> for a collaborator's error
  that is returned as it is, and \<open>PanicNilDereference\<close> for the run-time panic of a method
  call on a nil interface value.  \<open>ErrImageUnknown n\<close> is
  \<^verbatim>\<open>fmt.Errorf("%s: %w", n, storage.ErrImageUnknown)\<close> of line 565, and
  \<open>ErrFormatPullErrors\<close> is \<^verbatim>\<open>resolved.FormatPullErrors(pullErrors)\<close>.
\<close>

datatype error =
    ErrImageUnknown string
  | ErrAlwaysByID string
  | ErrPullingCancelled
  | ErrAllTagsUnsupported string
  | ErrNilReference
  | ErrParsingReference string ext_error
  | ErrRetryDelay ext_error
  | ErrLocatingPulled string ext_error
  | ErrCheckingPlatform string ext_error
  | ErrCreatingTagged string string ext_error
  | ErrLookingUpPulled ext_error
  | ErrNoImagePulled pull_policy
  | ErrFormatPullErrors "ext_error list"
  | ErrUnsupportedPullPolicy
  | ErrNoImageSpecified
  | ErrUnsupportedMultiFormat string
  | ErrMultipleImagesWithTags
  | ErrDirMultipleImages string "string list"
  | ErrUnsupportedFormat string
  | ErrInvalidAdditionalTag string string
  | ErrInternalFormat string
  | ErrIDNotFound string
  | ErrWrap error ext_error
  | ErrExternal ext_error
  | PanicNilDereference

text \<open>
  \<^verbatim>\<open>errors.Is(err, storage.ErrImageUnknown)\<close>: it follows the \<^verbatim>\<open>%w\<close> wrappers of the two
  files and the cause of \<^verbatim>\<open>errors.Wrap\<close>.
\<close>

fun ext_is_ErrImageUnknown :: "ext_error \<Rightarrow> bool" where
  "ext_is_ErrImageUnknown (StorageErrImageUnknown n) = True"
| "ext_is_ErrImageUnknown (Failure m) = False"

fun is_ErrImageUnknown :: "error \<Rightarrow> bool" where
  "is_ErrImageUnknown (ErrImageUnknown n) = True"
| "is_ErrImageUnknown (ErrExternal e) = ext_is_ErrImageUnknown e"
| "is_ErrImageUnknown (ErrParsingReference n e) = ext_is_ErrImageUnknown e"
| "is_ErrImageUnknown (ErrRetryDelay e) = ext_is_ErrImageUnknown e"
| "is_ErrImageUnknown (ErrLocatingPulled n e) = ext_is_ErrImageUnknown e"
| "is_ErrImageUnknown (ErrCheckingPlatform n e) = ext_is_ErrImageUnknown e"
| "is_ErrImageUnknown (ErrCreatingTagged n t e) = ext_is_ErrImageUnknown e"
| "is_ErrImageUnknown (ErrLookingUpPulled e) = ext_is_ErrImageUnknown e"
| "is_ErrImageUnknown (ErrWrap cause e) = is_ErrImageUnknown cause"
| "is_ErrImageUnknown e = False"

definition Validate :: "pull_policy \<Rightarrow> error option" where
  "Validate p = (if p = PullPolicyUnsupported then Some ErrUnsupportedPullPolicy else None)"

subsection \<open>Events, log entries, effects\<close>

datatype event_type = EventTypeImagePull | EventTypeImagePullError | EventTypeImageSave

text \<open>\<^verbatim>\<open>Event\<close> without its \<^verbatim>\<open>Time\<close> field (the wall clock is not modelled).\<close>

record event =
  ev_ID :: string
  ev_Name :: string
  ev_Type :: event_type
  ev_Error :: "error option"

text \<open>One constructor per \<^verbatim>\<open>logrus\<close> call of the modelled functions.\<close>

datatype log_entry =
    LogPulling string pull_policy
  | LogLookupError string ext_error
  | LogCorrupted ext_error
  | LogEnforcingNewer
  | LogNeverLocal string string
  | LogNeverMissing string
  | LogResolvedLocal string string
  | LogDescription string
  | LogAttempting named string
  | LogSkipping named
  | LogCopyError named ext_error
  | LogRecordError named ext_error
  | LogPulled named
  | LogPlatformWarning ext_error
  | LogSaving "string list" string

text \<open>\<^verbatim>\<open>LookupImageOptions\<close> as \<^verbatim>\<open>copySingleImageFromRegistry\<close> fills it.\<close>

record lookup_options =
  lo_Architecture :: string
  lo_OS :: string
  lo_Variant :: string

datatype effect =
    Log log_entry
  | LookupImageCall string "lookup_options option"
  | CorruptionCheck string
  | ShortnameResolve string
  | NewCopier "named list"
  | CopierClose
  | DigestCompare named
  | WriterWrite string
  | WriterWarning ext_error
  | CopyToStore named bool
  | RecordAlias named
  | ResolveReferenceCall named
  | RepositoryTagsCall
  | ContextPoll
  | PlatformCheck string
  | CopyOtherTransport string
  | Emit event
  | NewArchiveWriter string string
  | ArchiveNewReference "string option"
  | DirNewReference string string string
  | StorageReferenceCall string
  | CopyFromStore string "named list" "string option"
  | ArchiveClose

type_synonym trace = "effect list"

subsection \<open>Collaborators\<close>

text \<open>
  The pure library functions the two files call: \<^verbatim>\<open>alltransports\<close>, \<^verbatim>\<open>reference\<close>,
  \<^verbatim>\<open>manifest\<close>, the storage transport's parsers, and the package's own
  \<^verbatim>\<open>normalizeTaggedDigestedString\<close> and \<^verbatim>\<open>NormalizeName\<close>, which are not part of the two files.
\<close>

record references =
  ParseImageName :: "string \<Rightarrow> ext_error + image_ref"
  TransportFromImageName :: "string \<Rightarrow> string option"
  normalizeTaggedDigestedString :: "string \<Rightarrow> ext_error + string"
  NewReference :: "named \<Rightarrow> ext_error option"
  ParseStoreReference :: "string \<Rightarrow> ext_error option"
  WithTag :: "named \<Rightarrow> string \<Rightarrow> ext_error + named"
  manifest_Digest :: "string \<Rightarrow> ext_error + string"
  WithDigest :: "named \<Rightarrow> string \<Rightarrow> ext_error + named"
  NewStoreReference :: "named \<Rightarrow> ext_error option"
  NormalizeName :: "string \<Rightarrow> ext_error + named"
  ParseNamed :: "string \<Rightarrow> ext_error + named"

text \<open>\<^verbatim>\<open>shortnames.Resolved\<close>: the ordered candidates and the description.\<close>

record resolved =
  PullCandidates :: "named list"
  Description :: string

record config =
  Engine_Retry :: nat
  Engine_RetryDelay :: string

text \<open>
  The stateful collaborators.  Each answers as a function of the effects so far.
  \<open>copyFromDockerArchive\<close> and \<open>copyFromDefault\<close> are the pulls from the transports other than
  the registry; no claim is about them, and they are kept as collaborators of \<open>Pull\<close>.
\<close>

record world =
  config_Default :: "ext_error + config"
  ParseDuration :: "string \<Rightarrow> ext_error + nat"
  LookupImage :: "trace \<Rightarrow> string \<Rightarrow> lookup_options option \<Rightarrow> ext_error + image \<times> string"
  isCorrupted :: "trace \<Rightarrow> image \<Rightarrow> string \<Rightarrow> ext_error option"
  matchesPlatform :: "trace \<Rightarrow> image \<Rightarrow> string \<Rightarrow> string \<Rightarrow> string \<Rightarrow> ext_error + ext_error option"
  shortnames_Resolve :: "trace \<Rightarrow> string \<Rightarrow> ext_error + resolved"
  newCopier :: "trace \<Rightarrow> ext_error option"
  hasDifferentDigest :: "trace \<Rightarrow> image \<Rightarrow> named \<Rightarrow> ext_error + bool"
  Writer_Write :: "trace \<Rightarrow> string \<Rightarrow> ext_error option"
  Copy :: "trace \<Rightarrow> named \<Rightarrow> ext_error + string"
  Record :: "trace \<Rightarrow> named \<Rightarrow> ext_error option"
  ResolveReference :: "trace \<Rightarrow> named \<Rightarrow> ext_error + image"
  GetRepositoryTags :: "trace \<Rightarrow> image_ref \<Rightarrow> ext_error + string list"
  ctx_Done :: "trace \<Rightarrow> bool"
  copyFromDockerArchive :: "trace \<Rightarrow> image_ref \<Rightarrow> ext_error + string list"
  copyFromDefault :: "trace \<Rightarrow> image_ref \<Rightarrow> ext_error + string list"
  StorageReference :: "trace \<Rightarrow> image \<Rightarrow> ext_error option"
  NewWriter :: "trace \<Rightarrow> string \<Rightarrow> string \<Rightarrow> ext_error option"
  writer_NewReference :: "trace \<Rightarrow> string option \<Rightarrow> ext_error option"
  dir_NewReference :: "trace \<Rightarrow> string \<Rightarrow> string \<Rightarrow> string \<Rightarrow> ext_error option"
  copier_copy :: "trace \<Rightarrow> string \<Rightarrow> named list \<Rightarrow> string option \<Rightarrow> ext_error option"
  writer_Close :: "trace \<Rightarrow> ext_error option"

text \<open>
  \<^verbatim>\<open>Runtime\<close>: whether an event channel is configured, the platform choices of the
  system context, and the platform the program runs on (\<^verbatim>\<open>runtime.GOARCH\<close>, \<^verbatim>\<open>runtime.GOOS\<close>).
\<close>

record runtime =
  eventChannel :: bool
  ArchitectureChoice :: string
  OSChoice :: string
  VariantChoice :: string
  GOARCH :: string
  GOOS :: string

text \<open>\<^verbatim>\<open>PullOptions\<close>; \<open>Writer\<close> says whether \<^verbatim>\<open>options.Writer\<close> is non-nil.\<close>

record pull_options =
  Architecture :: string
  OS :: string
  Variant :: string
  AllTags :: bool
  Writer :: bool
  RetryDelay :: "nat option"

section \<open>Pull\<close>

subsection \<open>The local lookup of \<^verbatim>\<open>copySingleImageFromRegistry\<close>\<close>

text \<open>
  Lines 517 to 543: the lookup constrained by the platform fields that differ from the
  running platform, the log of an error other than \<^verbatim>\<open>ErrImageUnknown\<close>, and the
  corruption check that discards the local image.  The result is \<^verbatim>\<open>localImage\<close>,
  \<^verbatim>\<open>resolvedImageName\<close> and the effects.
\<close>

definition lookupLocal ::
  "world \<Rightarrow> runtime \<Rightarrow> string \<Rightarrow> pull_options \<Rightarrow> trace \<Rightarrow> image option \<times> string \<times> trace" where
  "lookupLocal w r imageName options tr =
     (let lookupImageOptions =
            \<lparr>lo_Architecture = (if Architecture options \<noteq> GOARCH r then Architecture options else []),
             lo_OS = (if OS options \<noteq> GOOS r then OS options else []),
             lo_Variant = Variant options\<rparr>;
          tr1 = tr @ [LookupImageCall imageName (Some lookupImageOptions)]
      in case LookupImage w tr imageName (Some lookupImageOptions) of
           Inl err \<Rightarrow>
             (None, [],
              if ext_is_ErrImageUnknown err then tr1 else tr1 @ [Log (LogLookupError imageName err)])
         | Inr (img, resolvedImageName) \<Rightarrow>
             (case isCorrupted w tr1 img imageName of
                Some err \<Rightarrow>
                  (None, resolvedImageName, tr1 @ [CorruptionCheck imageName, Log (LogCorrupted err)])
              | None \<Rightarrow> (Some img, resolvedImageName, tr1 @ [CorruptionCheck imageName])))"

subsection \<open>\<^verbatim>\<open>imageIDForPulledImage\<close>\<close>

definition imageIDForPulledImage ::
  "references \<Rightarrow> world \<Rightarrow> named \<Rightarrow> string \<Rightarrow> trace \<Rightarrow> (error + string) \<times> trace" where
  "imageIDForPulledImage refs w destName manifestBytes tr =
     (case manifest_Digest refs manifestBytes of
        Inl err \<Rightarrow> (Inl (ErrExternal err), tr)
      | Inr manifestDigest \<Rightarrow>
          (case WithDigest refs (TrimNamed destName) manifestDigest of
             Inl err \<Rightarrow> (Inl (ErrExternal err), tr)
           | Inr destDigestedName \<Rightarrow>
               (case NewStoreReference refs destDigestedName of
                  Some err \<Rightarrow> (Inl (ErrExternal err), tr)
                | None \<Rightarrow>
                    (case ResolveReference w tr destDigestedName of
                       Inl err \<Rightarrow>
                         (Inl (ErrLookingUpPulled err), tr @ [ResolveReferenceCall destDigestedName])
                     | Inr img \<Rightarrow> (Inr (ID img), tr @ [ResolveReferenceCall destDigestedName])))))"

subsection \<open>The candidate waterfall\<close>

text \<open>
  The closure \<^verbatim>\<open>writeDesc\<close>: after a call \<^verbatim>\<open>wroteDesc\<close> is true, whatever it returns.
\<close>

definition writeDesc ::
  "world \<Rightarrow> pull_options \<Rightarrow> resolved \<Rightarrow> bool \<Rightarrow> trace \<Rightarrow> ext_error option \<times> trace" where
  "writeDesc w options res wroteDesc tr =
     (if wroteDesc then (None, tr)
      else if 0 < length (Description res) then
        (let tr1 = tr @ [Log (LogDescription (Description res))]
         in if Writer options
            then (Writer_Write w tr1 (Description res @ [CHR 0x0A]),
                  tr1 @ [WriterWrite (Description res @ [CHR 0x0A])])
            else (None, tr1))
      else (None, tr))"

text \<open>
  One iteration of the loop of lines 642 to 695 either continues with the next candidate
  (\<open>Next\<close>: the new \<^verbatim>\<open>pullErrors\<close>, \<^verbatim>\<open>wroteDesc\<close> and effects) or returns from the function
  (\<open>Stop\<close>).
\<close>

datatype step = Next "ext_error list" bool trace | Stop "error + string" trace

text \<open>
  Lines 682 to 694, after a successful copy: the alias is recorded, a failure of the
  recording is only logged, and the identity is derived from the manifest.
\<close>

definition recordAndIdentify ::
  "references \<Rightarrow> world \<Rightarrow> named \<Rightarrow> string \<Rightarrow> trace \<Rightarrow> (error + string) \<times> trace" where
  "recordAndIdentify refs w candidate manifestBytes tr =
     (let tr1 = (case Record w tr candidate of
                   Some err \<Rightarrow> tr @ [RecordAlias candidate, Log (LogRecordError candidate err)]
                 | None \<Rightarrow> tr @ [RecordAlias candidate])
      in imageIDForPulledImage refs w candidate manifestBytes (tr1 @ [Log (LogPulled candidate)]))"

definition tryingToPull :: "named \<Rightarrow> string" where
  "tryingToPull candidate = ''Trying to pull '' @ named_String candidate @ ''...'' @ [CHR 0x0A]"

text \<open>Lines 663 to 694: the copy of one candidate, its recording and its identity.\<close>

definition copyCandidate ::
  "references \<Rightarrow> world \<Rightarrow> pull_options \<Rightarrow> resolved \<Rightarrow> named \<Rightarrow> ext_error list \<Rightarrow> bool \<Rightarrow> trace \<Rightarrow> step" where
  "copyCandidate refs w options res candidate pullErrors wroteDesc tr =
     (case ParseStoreReference refs (named_String candidate) of
        Some err \<Rightarrow> Stop (Inl (ErrExternal err)) tr
      | None \<Rightarrow>
          (case writeDesc w options res wroteDesc tr of
             (Some err, tr1) \<Rightarrow> Stop (Inl (ErrExternal err)) tr1
           | (None, tr1) \<Rightarrow>
               (let tr2 = (if Writer options then tr1 @ [WriterWrite (tryingToPull candidate)] else tr1)
                in case (if Writer options then Writer_Write w tr1 (tryingToPull candidate) else None) of
                     Some err \<Rightarrow> Stop (Inl (ErrExternal err)) tr2
                   | None \<Rightarrow>
                       (case Copy w tr2 candidate of
                          Inl err \<Rightarrow>
                            Next (pullErrors @ [err]) True
                              (tr2 @ [CopyToStore candidate False, Log (LogCopyError candidate err)])
                        | Inr manifestBytes \<Rightarrow>
                            (case recordAndIdentify refs w candidate manifestBytes
                                    (tr2 @ [CopyToStore candidate True]) of
                               (ids, tr3) \<Rightarrow> Stop ids tr3)))))"

text \<open>Lines 643 to 661, then the copy.\<close>

definition pullCandidate ::
  "references \<Rightarrow> world \<Rightarrow> pull_policy \<Rightarrow> image option \<Rightarrow> pull_options \<Rightarrow> resolved \<Rightarrow> string
     \<Rightarrow> named \<Rightarrow> ext_error list \<Rightarrow> bool \<Rightarrow> trace \<Rightarrow> step" where
  "pullCandidate refs w pullPolicy localImage options res imageName candidate pullErrors wroteDesc tr0 =
     (let tr = tr0 @ [Log (LogAttempting candidate imageName)]
      in case NewReference refs candidate of
           Some err \<Rightarrow> Stop (Inl (ErrExternal err)) tr
         | None \<Rightarrow>
             (case (if pullPolicy = PullPolicyNewer then localImage else None) of
                Some img \<Rightarrow>
                  (case hasDifferentDigest w tr img candidate of
                     Inl err \<Rightarrow> Next (pullErrors @ [err]) wroteDesc (tr @ [DigestCompare candidate])
                   | Inr isNewer \<Rightarrow>
                       if isNewer
                       then copyCandidate refs w options res candidate pullErrors wroteDesc
                              (tr @ [DigestCompare candidate])
                       else Next pullErrors wroteDesc
                              (tr @ [DigestCompare candidate, Log (LogSkipping candidate)]))
              | None \<Rightarrow> copyCandidate refs w options res candidate pullErrors wroteDesc tr))"

text \<open>The loop over \<^verbatim>\<open>resolved.PullCandidates\<close> and lines 697 to 705 after it.\<close>

fun pullCandidates ::
  "references \<Rightarrow> world \<Rightarrow> pull_policy \<Rightarrow> image option \<Rightarrow> string \<Rightarrow> pull_options \<Rightarrow> resolved \<Rightarrow> string
     \<Rightarrow> named list \<Rightarrow> ext_error list \<Rightarrow> bool \<Rightarrow> trace \<Rightarrow> (error + string) \<times> trace" where
  "pullCandidates refs w pullPolicy localImage resolvedImageName options res imageName [] pullErrors wroteDesc tr =
     (if localImage \<noteq> None \<and> pullPolicy = PullPolicyNewer then (Inr resolvedImageName, tr)
      else if length pullErrors = 0 then (Inl (ErrNoImagePulled pullPolicy), tr)
      else (Inl (ErrFormatPullErrors pullErrors), tr))"
| "pullCandidates refs w pullPolicy localImage resolvedImageName options res imageName (candidate # rest) pullErrors wroteDesc tr =
     (case pullCandidate refs w pullPolicy localImage options res imageName candidate pullErrors wroteDesc tr of
        Stop ids tr' \<Rightarrow> (ids, tr')
      | Next pullErrors' wroteDesc' tr' \<Rightarrow>
          pullCandidates refs w pullPolicy localImage resolvedImageName options res imageName rest
            pullErrors' wroteDesc' tr')"

subsection \<open>\<^verbatim>\<open>copySingleImageFromRegistry\<close>\<close>

definition customPlatform :: "pull_options \<Rightarrow> bool" where
  "customPlatform options =
     (0 < length (Architecture options) + length (OS options) + length (Variant options))"

text \<open>
  Lines 582 to 640: the name to resolve, the resolver, the copier, the waterfall.  The
  \<^verbatim>\<open>NOTIFY_SOCKET\<close> lookup only sets an option of the copier.
\<close>

definition resolveAndPull ::
  "references \<Rightarrow> world \<Rightarrow> pull_policy \<Rightarrow> image option \<Rightarrow> string \<Rightarrow> pull_options \<Rightarrow> string \<Rightarrow> trace
     \<Rightarrow> (error + string) \<times> trace" where
  "resolveAndPull refs w pullPolicy localImage resolvedImageName options imageName0 tr =
     (let useLocal = (localImage \<noteq> None \<and> \<not> customPlatform options);
          tr1 = (if useLocal \<and> imageName0 \<noteq> resolvedImageName
                 then tr @ [Log (LogResolvedLocal imageName0 resolvedImageName)] else tr);
          imageName = (if useLocal then resolvedImageName else imageName0);
          tr2 = tr1 @ [ShortnameResolve imageName]
      in case shortnames_Resolve w tr1 imageName of
           Inl err \<Rightarrow>
             (if localImage \<noteq> None \<and> pullPolicy = PullPolicyNewer
              then (Inr resolvedImageName, tr2) else (Inl (ErrExternal err), tr2))
         | Inr res \<Rightarrow>
             (case newCopier w tr2 of
                Some err \<Rightarrow> (Inl (ErrExternal err), tr2 @ [NewCopier []])
              | None \<Rightarrow>
                  (case pullCandidates refs w pullPolicy localImage resolvedImageName options res imageName
                          (PullCandidates res) [] False (tr2 @ [NewCopier []]) of
                     (ids, tr3) \<Rightarrow> (ids, tr3 @ [CopierClose]))))"

text \<open>Line 546: a custom platform turns every policy but always and never into newer.\<close>

definition effectivePolicy :: "pull_options \<Rightarrow> pull_policy \<Rightarrow> pull_policy" where
  "effectivePolicy options pullPolicy =
     (if customPlatform options \<and> pullPolicy \<noteq> PullPolicyAlways \<and> pullPolicy \<noteq> PullPolicyNever
      then PullPolicyNewer else pullPolicy)"

definition copySingleImageFromRegistry ::
  "references \<Rightarrow> world \<Rightarrow> runtime \<Rightarrow> string \<Rightarrow> pull_policy \<Rightarrow> pull_options \<Rightarrow> trace
     \<Rightarrow> (error + string) \<times> trace" where
  "copySingleImageFromRegistry refs w r imageName pullPolicy0 options tr =
     (case Validate pullPolicy0 of
        Some err \<Rightarrow> (Inl err, tr)
      | None \<Rightarrow>
          (case lookupLocal w r imageName options tr of
             (localImage, resolvedImageName, tr1) \<Rightarrow>
               (let pullPolicy = effectivePolicy options pullPolicy0;
                    tr2 = (if customPlatform options \<and> pullPolicy0 \<noteq> PullPolicyAlways
                                \<and> pullPolicy0 \<noteq> PullPolicyNever
                           then tr1 @ [Log LogEnforcingNewer] else tr1)
                in if pullPolicy = PullPolicyNever then
                     (case localImage of
                        Some img \<Rightarrow>
                          (Inr resolvedImageName, tr2 @ [Log (LogNeverLocal imageName resolvedImageName)])
                      | None \<Rightarrow> (Inl (ErrImageUnknown imageName), tr2 @ [Log (LogNeverMissing imageName)]))
                   else if pullPolicy = PullPolicyMissing \<and> localImage \<noteq> None
                   then (Inr resolvedImageName, tr2)
                   else if (case localImage of None \<Rightarrow> False | Some img \<Rightarrow> prefix imageName (ID img)) then
                     (if pullPolicy = PullPolicyAlways then (Inl (ErrAlwaysByID imageName), tr2)
                      else (Inr resolvedImageName, tr2))
                   else resolveAndPull refs w pullPolicy localImage resolvedImageName options imageName tr2)))"

subsection \<open>\<^verbatim>\<open>copyFromRegistry\<close>\<close>

text \<open>
  The loop of lines 438 to 454.  The \<^verbatim>\<open>select\<close> on \<^verbatim>\<open>ctx.Done()\<close> polls the context once
  per tag, before the tag is pulled.
\<close>

fun copyAllTags ::
  "references \<Rightarrow> world \<Rightarrow> runtime \<Rightarrow> named \<Rightarrow> pull_policy \<Rightarrow> pull_options \<Rightarrow> string list \<Rightarrow> string list
     \<Rightarrow> trace \<Rightarrow> (error + string list) \<times> trace" where
  "copyAllTags refs w r nm pullPolicy options [] pulledIDs tr = (Inr pulledIDs, tr)"
| "copyAllTags refs w r nm pullPolicy options (tg # tags) pulledIDs tr =
     (if ctx_Done w tr then (Inl ErrPullingCancelled, tr @ [ContextPoll])
      else
        (case WithTag refs nm tg of
           Inl err \<Rightarrow> (Inl (ErrCreatingTagged (named_String nm) tg err), tr @ [ContextPoll])
         | Inr tagged \<Rightarrow>
             (case copySingleImageFromRegistry refs w r (named_String tagged) pullPolicy options
                     (tr @ [ContextPoll]) of
                (Inl err, tr') \<Rightarrow> (Inl err, tr')
              | (Inr pulled, tr') \<Rightarrow>
                  copyAllTags refs w r nm pullPolicy options tags (pulledIDs @ [pulled]) tr')))"

text \<open>
  \<^verbatim>\<open>reference.TrimNamed\<close> calls a method of its argument: a nil docker reference panics.
\<close>

definition copyFromRegistry ::
  "references \<Rightarrow> world \<Rightarrow> runtime \<Rightarrow> image_ref \<Rightarrow> string \<Rightarrow> pull_policy \<Rightarrow> pull_options \<Rightarrow> trace
     \<Rightarrow> (error + string list) \<times> trace" where
  "copyFromRegistry refs w r ref inputName pullPolicy options tr =
     (case Validate pullPolicy of
        Some err \<Rightarrow> (Inl err, tr)
      | None \<Rightarrow>
          if \<not> AllTags options then
            (case copySingleImageFromRegistry refs w r inputName pullPolicy options tr of
               (Inl err, tr') \<Rightarrow> (Inl err, tr')
             | (Inr pulled, tr') \<Rightarrow> (Inr [pulled], tr'))
          else
            (case DockerReference ref of
               None \<Rightarrow> (Inl PanicNilDereference, tr)
             | Some dref \<Rightarrow>
                 (case GetRepositoryTags w tr ref of
                    Inl err \<Rightarrow> (Inl (ErrExternal err), tr @ [RepositoryTagsCall])
                  | Inr tags \<Rightarrow>
                      copyAllTags refs w r (TrimNamed dref) pullPolicy options tags []
                        (tr @ [RepositoryTagsCall]))))"

subsection \<open>\<^verbatim>\<open>Pull\<close>\<close>

definition ContainsAny :: "string \<Rightarrow> string \<Rightarrow> bool" where
  "ContainsAny s chars = list_ex (\<lambda>c. List.member chars c) s"

text \<open>The condition of line 101.\<close>

definition refersToLocalID :: "string \<Rightarrow> bool" where
  "refersToLocalID name =
     (prefix ''sha256:'' name \<or> (length name = 64 \<and> \<not> ContainsAny name ''/.:@''))"

text \<open>The condition of line 95: the name starts with a known transport other than docker.\<close>

definition namesOtherTransport :: "references \<Rightarrow> string \<Rightarrow> bool" where
  "namesOtherTransport refs name =
     (case TransportFromImageName refs name of
        None \<Rightarrow> False
      | Some t \<Rightarrow> t \<noteq> registryTransport_Name)"

text \<open>
  Lines 86 to 139 either return (\<open>Done\<close>: the result, and the value of \<^verbatim>\<open>name\<close> at the
  return, which the deferred error event reads) or go on with \<^verbatim>\<open>ref\<close>,
  \<^verbatim>\<open>possiblyUnqualifiedName\<close> and \<^verbatim>\<open>name\<close> (\<open>Parsed\<close>).
\<close>

datatype parsed = Done "error + image list" string | Parsed image_ref string string

definition parseName ::
  "references \<Rightarrow> world \<Rightarrow> string \<Rightarrow> pull_policy \<Rightarrow> trace \<Rightarrow> parsed \<times> trace" where
  "parseName refs w name pullPolicy tr =
     (case ParseImageName refs name of
        Inl err \<Rightarrow>
          if namesOtherTransport refs name then (Done (Inl (ErrExternal err)) name, tr)
          else if refersToLocalID name then
            (if pullPolicy = PullPolicyAlways then (Done (Inl (ErrAlwaysByID name)) name, tr)
             else
               (case LookupImage w tr name None of
                  Inl lerr \<Rightarrow> (Done (Inl (ErrExternal lerr)) name, tr @ [LookupImageCall name None])
                | Inr (local, resolvedName) \<Rightarrow>
                    (Done (Inr [local]) name, tr @ [LookupImageCall name None])))
          else
            (case normalizeTaggedDigestedString refs name of
               Inl normalizeError \<Rightarrow> (Done (Inl (ErrParsingReference name normalizeError)) name, tr)
             | Inr normalizedName \<Rightarrow>
                 (case ParseImageName refs (''docker://'' @ normalizedName) of
                    Inl dockerErr \<Rightarrow> (Done (Inl (ErrExternal err)) normalizedName, tr)
                  | Inr dockerRef \<Rightarrow> (Parsed dockerRef normalizedName normalizedName, tr)))
      | Inr ref \<Rightarrow>
          if Transport_Name ref = registryTransport_Name then
            (case DockerReference ref of
               None \<Rightarrow> (Done (Inl ErrNilReference) name, tr)
             | Some nm \<Rightarrow> (Parsed ref (named_String nm) name, tr))
          else (Parsed ref [] name, tr))"

text \<open>The loop of lines 181 to 211 over the pulled names.\<close>

fun locatePulled ::
  "world \<Rightarrow> runtime \<Rightarrow> string \<Rightarrow> pull_options \<Rightarrow> string list \<Rightarrow> image list \<Rightarrow> trace
     \<Rightarrow> (error + image list) \<times> trace" where
  "locatePulled w r name options [] found tr = (Inr found, tr)"
| "locatePulled w r name options (iName # rest) found tr =
     (let tr1 = tr @ [LookupImageCall iName None]
      in case LookupImage w tr iName None of
           Inl err \<Rightarrow> (Inl (ErrLocatingPulled iName err), tr1)
         | Inr (img, resolvedName) \<Rightarrow>
             (let tr2 = tr1 @ [PlatformCheck (ID img)]
              in case matchesPlatform w tr1 img (OS options) (Architecture options) (Variant options) of
                   Inl err \<Rightarrow> (Inl (ErrCheckingPlatform name err), tr2)
                 | Inr matchError \<Rightarrow>
                     (let tr3 = (case matchError of
                                   None \<Rightarrow> tr2
                                 | Some m \<Rightarrow>
                                     if Writer options then tr2 @ [WriterWarning m]
                                     else tr2 @ [Log (LogPlatformWarning m)]);
                          tr4 = (if eventChannel r
                                 then tr3 @ [Emit \<lparr>ev_ID = ID img, ev_Name = name,
                                                    ev_Type = EventTypeImagePull, ev_Error = None\<rparr>]
                                 else tr3)
                      in locatePulled w r name options rest (found @ [img]) tr4)))"

text \<open>Lines 149 to 157: the platform of the system context fills the empty fields.\<close>

definition platformFromContext :: "runtime \<Rightarrow> pull_options \<Rightarrow> pull_options" where
  "platformFromContext r options =
     options
       \<lparr>Architecture := (if Architecture options = [] then ArchitectureChoice r else Architecture options),
        OS := (if OS options = [] then OSChoice r else OS options),
        Variant := (if Variant options = [] then VariantChoice r else Variant options)\<rparr>"

text \<open>Lines 159 to 174: the dispatch on the transport.\<close>

definition dispatchCopy ::
  "references \<Rightarrow> world \<Rightarrow> runtime \<Rightarrow> image_ref \<Rightarrow> string \<Rightarrow> pull_policy \<Rightarrow> pull_options \<Rightarrow> trace
     \<Rightarrow> (error + string list) \<times> trace" where
  "dispatchCopy refs w r ref possiblyUnqualifiedName pullPolicy options tr =
     (if Transport_Name ref = registryTransport_Name
      then copyFromRegistry refs w r ref possiblyUnqualifiedName pullPolicy options tr
      else
        (case (if Transport_Name ref = dockerArchiveTransport_Name
               then copyFromDockerArchive w tr ref else copyFromDefault w tr ref) of
           Inl err \<Rightarrow> (Inl (ErrExternal err), tr @ [CopyOtherTransport (Transport_Name ref)])
         | Inr pulledImages \<Rightarrow> (Inr pulledImages, tr @ [CopyOtherTransport (Transport_Name ref)])))"

text \<open>
  Lines 86 to 213 of \<^verbatim>\<open>Pull\<close>: the result, the final value of \<^verbatim>\<open>name\<close> and the effects.
\<close>

definition Pull_main ::
  "references \<Rightarrow> world \<Rightarrow> runtime \<Rightarrow> string \<Rightarrow> pull_policy \<Rightarrow> pull_options \<Rightarrow> trace
     \<Rightarrow> (error + image list) \<times> string \<times> trace" where
  "Pull_main refs w r name0 pullPolicy options0 tr =
     (case parseName refs w name0 pullPolicy tr of
        (Done res name, tr1) \<Rightarrow> (res, name, tr1)
      | (Parsed ref possiblyUnqualifiedName name, tr1) \<Rightarrow>
          if AllTags options0 \<and> Transport_Name ref \<noteq> registryTransport_Name
          then (Inl (ErrAllTagsUnsupported (Transport_Name ref)), name, tr1)
          else
            (case dispatchCopy refs w r ref possiblyUnqualifiedName pullPolicy
                    (platformFromContext r options0) tr1 of
               (Inl err, tr2) \<Rightarrow> (Inl err, name, tr2)
             | (Inr pulledImages, tr2) \<Rightarrow>
                 (case locatePulled w r name (platformFromContext r options0) pulledImages [] tr2 of
                    (res, tr3) \<Rightarrow> (res, name, tr3))))"

text \<open>
  Lines 56 to 84: the default configuration and its retry delay.  \<^verbatim>\<open>options == nil\<close> is
  the record of zero values.
\<close>

definition configError :: "world \<Rightarrow> pull_options \<Rightarrow> error option" where
  "configError w options =
     (case config_Default w of
        Inl err \<Rightarrow> Some (ErrExternal err)
      | Inr defaultConfig \<Rightarrow>
          if RetryDelay options = None \<and> Engine_RetryDelay defaultConfig \<noteq> [] then
            (case ParseDuration w (Engine_RetryDelay defaultConfig) of
               Inl err \<Rightarrow> Some (ErrRetryDelay err)
             | Inr duration \<Rightarrow> None)
          else None)"

definition Pull_body ::
  "references \<Rightarrow> world \<Rightarrow> runtime \<Rightarrow> string \<Rightarrow> pull_policy \<Rightarrow> pull_options \<Rightarrow> trace
     \<Rightarrow> (error + image list) \<times> string \<times> trace" where
  "Pull_body refs w r name pullPolicy options tr =
     (case configError w options of
        Some err \<Rightarrow> (Inl err, name, tr @ [Log (LogPulling name pullPolicy)])
      | None \<Rightarrow> Pull_main refs w r name pullPolicy options (tr @ [Log (LogPulling name pullPolicy)]))"

text \<open>
  \<^verbatim>\<open>Pull\<close> with its deferred function: with an event channel, an error return emits one
  \<^verbatim>\<open>EventTypeImagePullError\<close> event.
\<close>

definition Pull ::
  "references \<Rightarrow> world \<Rightarrow> runtime \<Rightarrow> string \<Rightarrow> pull_policy \<Rightarrow> pull_options \<Rightarrow> trace
     \<Rightarrow> (error + image list) \<times> trace" where
  "Pull refs w r name pullPolicy options tr =
     (case Pull_body refs w r name pullPolicy options tr of
        (Inl pullError, name', tr') \<Rightarrow>
          (Inl pullError,
           if eventChannel r
           then tr' @ [Emit \<lparr>ev_ID = [], ev_Name = name', ev_Type = EventTypeImagePullError,
                              ev_Error = Some pullError\<rparr>]
           else tr')
      | (Inr images, name', tr') \<Rightarrow> (Inr images, tr'))"

section \<open>Save\<close>

record save_options =
  AdditionalTags :: "string list"

text \<open>The struct \<^verbatim>\<open>localImage\<close>.\<close>

record localImage =
  li_image :: image
  li_tags :: "named list"
  li_destNames :: "string list"

subsection \<open>\<^verbatim>\<open>saveSingleImage\<close>\<close>

definition saveSingleImage ::
  "world \<Rightarrow> runtime \<Rightarrow> string \<Rightarrow> string \<Rightarrow> string \<Rightarrow> trace \<Rightarrow> error option \<times> trace" where
  "saveSingleImage w r name format path tr =
     (let tr1 = tr @ [LookupImageCall name None]
      in case LookupImage w tr name None of
           Inl err \<Rightarrow> (Some (ErrExternal err), tr1)
         | Inr (img, imageName) \<Rightarrow>
             (let tg = (if \<not> prefix imageName (ID img) then imageName else []);
                  tr2 = tr1 @ [StorageReferenceCall (ID img)];
                  destTag = (if format = ''oci-dir'' then tg else []);
                  tr3 = tr2 @ [DirNewReference format path destTag];
                  tr4 = tr3 @ [NewCopier []];
                  tr5 = tr4 @ [CopyFromStore (ID img) [] (Some path)];
                  (res, tr') =
                    (case StorageReference w tr1 img of
                       Some err \<Rightarrow> (Some (ErrExternal err), tr2)
                     | None \<Rightarrow>
                         if format = ''oci-dir'' \<or> format = ''docker-dir'' then
                           (case dir_NewReference w tr2 format path destTag of
                              Some err \<Rightarrow> (Some (ErrExternal err), tr3)
                            | None \<Rightarrow>
                                (case newCopier w tr3 of
                                   Some err \<Rightarrow> (Some (ErrExternal err), tr4)
                                 | None \<Rightarrow>
                                     (map_option ErrExternal (copier_copy w tr4 (ID img) [] (Some path)),
                                      tr5 @ [CopierClose])))
                         else (Some (ErrUnsupportedFormat format), tr2))
              in (res,
                  if eventChannel r
                  then tr' @ [Emit \<lparr>ev_ID = ID img, ev_Name = path, ev_Type = EventTypeImageSave,
                                     ev_Error = None\<rparr>]
                  else tr')))"

subsection \<open>\<^verbatim>\<open>saveArchive\<close>: the additional tags\<close>

text \<open>Lines 141 to 151.  A tag that \<^verbatim>\<open>NormalizeName\<close> rejects takes no branch of the loop body.\<close>

fun normalizeAdditionalTags :: "references \<Rightarrow> string list \<Rightarrow> named list \<Rightarrow> error + named list" where
  "normalizeAdditionalTags refs [] additionalTags = Inr additionalTags"
| "normalizeAdditionalTags refs (tg # rest) additionalTags =
     (case NormalizeName refs tg of
        Inl err \<Rightarrow> normalizeAdditionalTags refs rest additionalTags
      | Inr nm \<Rightarrow>
          if \<not> withTag nm then Inl (ErrInvalidAdditionalTag tg (named_String nm))
          else normalizeAdditionalTags refs rest (additionalTags @ [nm]))"

subsection \<open>\<^verbatim>\<open>saveArchive\<close>: the scan of the names\<close>

text \<open>
  The variables of lines 153 to 155, and the events whose emission the loop has deferred
  (in the order of the \<^verbatim>\<open>defer\<close> statements; they run last in, first out, when
  \<^verbatim>\<open>saveArchive\<close> exits).
\<close>

record assembly =
  orderedIDs :: "string list"
  localImages :: "string \<rightharpoonup> localImage"
  visitedNames :: "string \<rightharpoonup> bool"
  deferred :: "event list"

definition emptyAssembly :: assembly where
  "emptyAssembly = \<lparr>orderedIDs = [], localImages = Map.empty, visitedNames = Map.empty, deferred = []\<rparr>"

text \<open>
  Lines 156 to 189.  At line 183 \<^verbatim>\<open>tagged.String()\<close> is called whether or not the type
  assertion of line 179 succeeded; when it failed \<^verbatim>\<open>tagged\<close> is the nil interface value and
  the call panics, before line 185 stores the entry.
\<close>

fun collectImages ::
  "references \<Rightarrow> world \<Rightarrow> runtime \<Rightarrow> string \<Rightarrow> named list \<Rightarrow> string list \<Rightarrow> assembly \<Rightarrow> trace
     \<Rightarrow> error option \<times> assembly \<times> trace" where
  "collectImages refs w r path additionalTags [] st tr = (None, st, tr)"
| "collectImages refs w r path additionalTags (name # rest) st tr =
     (let tr1 = tr @ [LookupImageCall name None]
      in case LookupImage w tr name None of
           Inl err \<Rightarrow> (Some (ErrExternal err), st, tr1)
         | Inr (img, imageName) \<Rightarrow>
             if visitedNames st imageName \<noteq> None
             then collectImages refs w r path additionalTags rest st tr1
             else
               (let st1 = st\<lparr>visitedNames := (visitedNames st)(imageName \<mapsto> True)\<rparr>;
                    (local, st2) =
                      (case localImages st1 (ID img) of
                         Some l \<Rightarrow> (l, st1)
                       | None \<Rightarrow>
                           (\<lparr>li_image = img, li_tags = additionalTags, li_destNames = []\<rparr>,
                            st1\<lparr>orderedIDs := orderedIDs st1 @ [ID img]\<rparr>));
                    ev = \<lparr>ev_ID = ID img, ev_Name = path, ev_Type = EventTypeImageSave, ev_Error = None\<rparr>
                in case ParseNamed refs imageName of
                     Inl err \<Rightarrow>
                       collectImages refs w r path additionalTags rest
                         (st2\<lparr>localImages := (localImages st2)(ID img \<mapsto> local),
                              deferred := (if eventChannel r then deferred st2 @ [ev] else deferred st2)\<rparr>)
                         tr1
                   | Inr nm \<Rightarrow>
                       if withTag nm then
                         collectImages refs w r path additionalTags rest
                           (st2\<lparr>localImages := (localImages st2)(ID img \<mapsto>
                                    local\<lparr>li_tags := li_tags local @ [nm],
                                           li_destNames := li_destNames local @ [named_String nm]\<rparr>),
                                deferred := (if eventChannel r then deferred st2 @ [ev] else deferred st2)\<rparr>)
                           tr1
                       else (Some PanicNilDereference, st2, tr1)))"

subsection \<open>\<^verbatim>\<open>saveDockerArchive\<close>\<close>

text \<open>
  The loop of lines 226 to 254: the error returned (\<open>None\<close> at the end of the loop), the
  number of copiers whose \<^verbatim>\<open>close\<close> has been deferred, and the effects.  The copier of an
  image carries the image's tags as \<^verbatim>\<open>dockerArchiveAdditionalTags\<close>.
\<close>

fun dockerArchiveImages ::
  "world \<Rightarrow> string list \<Rightarrow> (string \<rightharpoonup> localImage) \<Rightarrow> nat \<Rightarrow> trace \<Rightarrow> error option \<times> nat \<times> trace" where
  "dockerArchiveImages w [] images n tr = (None, n, tr)"
| "dockerArchiveImages w (imgID # rest) images n tr =
     (case images imgID of
        None \<Rightarrow> (Some (ErrIDNotFound imgID), n, tr)
      | Some local \<Rightarrow>
          (let tr1 = tr @ [NewCopier (li_tags local)];
               tr2 = tr1 @ [ArchiveNewReference None];
               tr3 = tr2 @ [StorageReferenceCall (ID (li_image local))];
               tr4 = tr3 @ [CopyFromStore (ID (li_image local)) (li_tags local) None]
           in case newCopier w tr of
                Some err \<Rightarrow> (Some (ErrExternal err), n, tr1)
              | None \<Rightarrow>
                  (case writer_NewReference w tr1 None of
                     Some err \<Rightarrow> (Some (ErrExternal err), Suc n, tr2)
                   | None \<Rightarrow>
                       (case StorageReference w tr2 (li_image local) of
                          Some err \<Rightarrow> (Some (ErrExternal err), Suc n, tr3)
                        | None \<Rightarrow>
                            (case copier_copy w tr3 (ID (li_image local)) (li_tags local) None of
                               Some err \<Rightarrow> (Some (ErrExternal err), Suc n, tr4)
                             | None \<Rightarrow> dockerArchiveImages w rest images (Suc n) tr4)))))"

text \<open>
  The deferred calls run when the function exits: the copiers' \<^verbatim>\<open>close\<close>, then the
  writer's \<^verbatim>\<open>Close\<close>, whose error becomes the result or is wrapped around it.
\<close>

definition saveDockerArchive ::
  "world \<Rightarrow> string \<Rightarrow> string list \<Rightarrow> (string \<rightharpoonup> localImage) \<Rightarrow> trace \<Rightarrow> error option \<times> trace" where
  "saveDockerArchive w path ids images tr =
     (let tr0 = tr @ [NewArchiveWriter ''docker-archive'' path]
      in case NewWriter w tr ''docker-archive'' path of
           Some err \<Rightarrow> (Some (ErrExternal err), tr0)
         | None \<Rightarrow>
             (case dockerArchiveImages w ids images 0 tr0 of
                (finalErr, n, tr1) \<Rightarrow>
                  (let tr2 = tr1 @ replicate n CopierClose
                   in case writer_Close w tr2 of
                        None \<Rightarrow> (finalErr, tr2 @ [ArchiveClose])
                      | Some err \<Rightarrow>
                          (case finalErr of
                             None \<Rightarrow> (Some (ErrExternal err), tr2 @ [ArchiveClose])
                           | Some fe \<Rightarrow> (Some (ErrWrap fe err), tr2 @ [ArchiveClose])))))"

subsection \<open>\<^verbatim>\<open>saveOCIArchive\<close>\<close>

text \<open>The inner loop of lines 288 to 302 over the \<^verbatim>\<open>destNames\<close> of one image.\<close>

fun ociArchiveNames :: "world \<Rightarrow> image \<Rightarrow> string list \<Rightarrow> trace \<Rightarrow> error option \<times> trace" where
  "ociArchiveNames w img [] tr = (None, tr)"
| "ociArchiveNames w img (destName # rest) tr =
     (let tr1 = tr @ [ArchiveNewReference (Some destName)];
          tr2 = tr1 @ [StorageReferenceCall (ID img)];
          tr3 = tr2 @ [CopyFromStore (ID img) [] (Some destName)]
      in case writer_NewReference w tr (Some destName) of
           Some err \<Rightarrow> (Some (ErrExternal err), tr1)
         | None \<Rightarrow>
             (case StorageReference w tr1 img of
                Some err \<Rightarrow> (Some (ErrExternal err), tr2)
              | None \<Rightarrow>
                  (case copier_copy w tr2 (ID img) [] (Some destName) of
                     Some err \<Rightarrow> (Some (ErrExternal err), tr3)
                   | None \<Rightarrow> ociArchiveNames w img rest tr3)))"

text \<open>The outer loop of lines 274 to 303.\<close>

fun ociArchiveImages ::
  "world \<Rightarrow> string list \<Rightarrow> (string \<rightharpoonup> localImage) \<Rightarrow> nat \<Rightarrow> trace \<Rightarrow> error option \<times> nat \<times> trace" where
  "ociArchiveImages w [] images n tr = (None, n, tr)"
| "ociArchiveImages w (imgID # rest) images n tr =
     (case images imgID of
        None \<Rightarrow> (Some (ErrIDNotFound imgID), n, tr)
      | Some local \<Rightarrow>
          (case newCopier w tr of
             Some err \<Rightarrow> (Some (ErrExternal err), n, tr @ [NewCopier []])
           | None \<Rightarrow>
               (case ociArchiveNames w (li_image local) (li_destNames local) (tr @ [NewCopier []]) of
                  (Some err, tr1) \<Rightarrow> (Some err, Suc n, tr1)
                | (None, tr1) \<Rightarrow> ociArchiveImages w rest images (Suc n) tr1)))"

text \<open>
  The deferred \<^verbatim>\<open>Close\<close> of lines 263 to 272 has no \<^verbatim>\<open>return\<close> after
  \<^verbatim>\<open>finalErr = err\<close>: a close error with no earlier error is wrapped around itself.
\<close>

definition saveOCIArchive ::
  "world \<Rightarrow> string \<Rightarrow> string list \<Rightarrow> (string \<rightharpoonup> localImage) \<Rightarrow> trace \<Rightarrow> error option \<times> trace" where
  "saveOCIArchive w path ids images tr =
     (let tr0 = tr @ [NewArchiveWriter ''oci-archive'' path]
      in case NewWriter w tr ''oci-archive'' path of
           Some err \<Rightarrow> (Some (ErrExternal err), tr0)
         | None \<Rightarrow>
             (case ociArchiveImages w ids images 0 tr0 of
                (finalErr, n, tr1) \<Rightarrow>
                  (let tr2 = tr1 @ replicate n CopierClose
                   in case writer_Close w tr2 of
                        None \<Rightarrow> (finalErr, tr2 @ [ArchiveClose])
                      | Some err \<Rightarrow>
                          (case finalErr of
                             None \<Rightarrow> (Some (ErrWrap (ErrExternal err) err), tr2 @ [ArchiveClose])
                           | Some fe \<Rightarrow> (Some (ErrWrap fe err), tr2 @ [ArchiveClose])))))"

subsection \<open>\<^verbatim>\<open>saveArchive\<close> and \<^verbatim>\<open>Save\<close>\<close>

text \<open>
  The deferred events are emitted on every exit of \<^verbatim>\<open>saveArchive\<close> after the scan has
  started, an error return and a panic included, last deferred first.
\<close>

definition saveArchive ::
  "references \<Rightarrow> world \<Rightarrow> runtime \<Rightarrow> string list \<Rightarrow> string \<Rightarrow> string \<Rightarrow> save_options \<Rightarrow> trace
     \<Rightarrow> error option \<times> trace" where
  "saveArchive refs w r names format path options tr =
     (case normalizeAdditionalTags refs (AdditionalTags options) [] of
        Inl err \<Rightarrow> (Some err, tr)
      | Inr additionalTags \<Rightarrow>
          (case collectImages refs w r path additionalTags names emptyAssembly tr of
             (scanErr, st, tr1) \<Rightarrow>
               (case (case scanErr of
                        Some err \<Rightarrow> (Some err, tr1)
                      | None \<Rightarrow>
                          if format = ''docker-archive''
                          then saveDockerArchive w path (orderedIDs st) (localImages st) tr1
                          else if format = ''oci-archive''
                          then saveOCIArchive w path (orderedIDs st) (localImages st) tr1
                          else (Some (ErrInternalFormat format), tr1)) of
                  (res, tr2) \<Rightarrow> (res, tr2 @ map Emit (rev (deferred st))))))"

text \<open>\<^verbatim>\<open>Save\<close>; \<^verbatim>\<open>options == nil\<close> is the record with no additional tags.\<close>

definition Save ::
  "references \<Rightarrow> world \<Rightarrow> runtime \<Rightarrow> string list \<Rightarrow> string \<Rightarrow> string \<Rightarrow> save_options \<Rightarrow> trace
     \<Rightarrow> error option \<times> trace" where
  "Save refs w r names format path options tr0 =
     (let tr = tr0 @ [Log (LogSaving names path)]
      in case names of
           [] \<Rightarrow> (Some ErrNoImageSpecified, tr)
         | name # others \<Rightarrow>
             if others \<noteq> [] \<and> format \<noteq> ''docker-archive'' \<and> format \<noteq> ''oci-archive''
             then (Some (ErrUnsupportedMultiFormat format), tr)
             else if others \<noteq> [] \<and> 0 < length (AdditionalTags options)
             then (Some ErrMultipleImagesWithTags, tr)
             else if format = ''oci-dir'' \<or> format = ''docker-dir'' then
               (if 1 < length names then (Some (ErrDirMultipleImages format names), tr)
                else saveSingleImage w r name format path tr)
             else if format = ''docker-archive'' \<or> format = ''oci-archive''
             then saveArchive refs w r names format path options tr
             else (Some (ErrUnsupportedFormat format), tr))"

subsection \<open>Reading a trace\<close>

text \<open>
  The transport copies into the local store a run has attempted, the successful ones, the
  candidates recorded, the events emitted, the candidates whose iteration of the waterfall
  has started, the entries written to an archive (image, repository tags, destination
  name) and the errors logged.
\<close>

fun copiesAttempted :: "trace \<Rightarrow> named list" where
  "copiesAttempted [] = []"
| "copiesAttempted (CopyToStore c ok # tr) = c # copiesAttempted tr"
| "copiesAttempted (e # tr) = copiesAttempted tr"

fun imagesStored :: "trace \<Rightarrow> named list" where
  "imagesStored [] = []"
| "imagesStored (CopyToStore c ok # tr) = (if ok then c # imagesStored tr else imagesStored tr)"
| "imagesStored (e # tr) = imagesStored tr"

fun recorded :: "trace \<Rightarrow> named list" where
  "recorded [] = []"
| "recorded (RecordAlias c # tr) = c # recorded tr"
| "recorded (e # tr) = recorded tr"

fun emitted :: "trace \<Rightarrow> event list" where
  "emitted [] = []"
| "emitted (Emit ev # tr) = ev # emitted tr"
| "emitted (e # tr) = emitted tr"

fun candidatesTried :: "trace \<Rightarrow> named list" where
  "candidatesTried [] = []"
| "candidatesTried (Log (LogAttempting c n) # tr) = c # candidatesTried tr"
| "candidatesTried (e # tr) = candidatesTried tr"

fun archiveEntries :: "trace \<Rightarrow> (string \<times> named list \<times> string option) list" where
  "archiveEntries [] = []"
| "archiveEntries (CopyFromStore i tags dest # tr) = (i, tags, dest) # archiveEntries tr"
| "archiveEntries (e # tr) = archiveEntries tr"

fun loggedErrors :: "trace \<Rightarrow> ext_error list" where
  "loggedErrors [] = []"
| "loggedErrors (Log (LogLookupError n e) # tr) = e # loggedErrors tr"
| "loggedErrors (Log (LogCorrupted e) # tr) = e # loggedErrors tr"
| "loggedErrors (Log (LogCopyError c e) # tr) = e # loggedErrors tr"
| "loggedErrors (Log (LogRecordError c e) # tr) = e # loggedErrors tr"
| "loggedErrors (Log (LogPlatformWarning e) # tr) = e # loggedErrors tr"
| "loggedErrors (e # tr) = loggedErrors tr"

text \<open>The calls into the local store, the resolver and the transports.\<close>

fun touchesStoreOrRegistry :: "effect \<Rightarrow> bool" where
  "touchesStoreOrRegistry (LookupImageCall n opts) = True"
| "touchesStoreOrRegistry (CorruptionCheck n) = True"
| "touchesStoreOrRegistry (ShortnameResolve n) = True"
| "touchesStoreOrRegistry (NewCopier tags) = True"
| "touchesStoreOrRegistry (DigestCompare c) = True"
| "touchesStoreOrRegistry (CopyToStore c ok) = True"
| "touchesStoreOrRegistry (RecordAlias c) = True"
| "touchesStoreOrRegistry (ResolveReferenceCall c) = True"
| "touchesStoreOrRegistry RepositoryTagsCall = True"
| "touchesStoreOrRegistry (PlatformCheck i) = True"
| "touchesStoreOrRegistry (CopyOtherTransport t) = True"
| "touchesStoreOrRegistry e = False"

subsection \<open>The spec's reading of an ID-shaped name\<close>

text \<open>
  The spec's words for the names looked up locally: a 64-character hex string, or a string
  with the prefix \<^verbatim>\<open>sha256:\<close>.  The source's condition is \<open>refersToLocalID\<close>.
\<close>

definition isHexDigit :: "char \<Rightarrow> bool" where
  "isHexDigit c = List.member ''0123456789abcdefABCDEF'' c"

definition spec_refersToLocalID :: "string \<Rightarrow> bool" where
  "spec_refersToLocalID name =
     (prefix ''sha256:'' name \<or> (length name = 64 \<and> list_all isHexDigit name))"

section \<open>Concrete collaborators\<close>

text \<open>
  A reference library that parses nothing but builds tags and digests, a world whose store
  is empty and whose other collaborators succeed, a runtime without an event channel, and
  the zero pull options.  The scenarios below override single fields.
\<close>

definition plainRefs :: references where
  "plainRefs =
     \<lparr>ParseImageName = (\<lambda>s. Inl (Failure ''invalid image name'')),
      TransportFromImageName = (\<lambda>s. None),
      normalizeTaggedDigestedString = (\<lambda>s. Inr s),
      NewReference = (\<lambda>n. None),
      ParseStoreReference = (\<lambda>s. None),
      WithTag = (\<lambda>n t. Inr (Named (repository n) (Some t) None)),
      manifest_Digest = (\<lambda>m. Inr m),
      WithDigest = (\<lambda>n d. Inr (Named (repository n) None (Some d))),
      NewStoreReference = (\<lambda>n. None),
      NormalizeName = (\<lambda>s. Inl (Failure ''invalid reference format'')),
      ParseNamed = (\<lambda>s. Inl (Failure ''invalid reference format''))\<rparr>"

definition emptyWorld :: world where
  "emptyWorld =
     \<lparr>config_Default = Inr \<lparr>Engine_Retry = 3, Engine_RetryDelay = []\<rparr>,
      ParseDuration = (\<lambda>s. Inr 0),
      LookupImage = (\<lambda>tr n opts. Inl (StorageErrImageUnknown n)),
      isCorrupted = (\<lambda>tr i n. None),
      matchesPlatform = (\<lambda>tr i os arch v. Inr None),
      shortnames_Resolve = (\<lambda>tr n. Inl (Failure ''short-name resolution failed'')),
      newCopier = (\<lambda>tr. None),
      hasDifferentDigest = (\<lambda>tr i c. Inr True),
      Writer_Write = (\<lambda>tr s. None),
      Copy = (\<lambda>tr c. Inl (Failure ''manifest unknown'')),
      Record = (\<lambda>tr c. None),
      ResolveReference = (\<lambda>tr c. Inl (Failure ''reference does not resolve to an image'')),
      GetRepositoryTags = (\<lambda>tr ref. Inr []),
      ctx_Done = (\<lambda>tr. False),
      copyFromDockerArchive = (\<lambda>tr ref. Inl (Failure ''no such archive'')),
      copyFromDefault = (\<lambda>tr ref. Inl (Failure ''no such image'')),
      StorageReference = (\<lambda>tr i. None),
      NewWriter = (\<lambda>tr format path. None),
      writer_NewReference = (\<lambda>tr dest. None),
      dir_NewReference = (\<lambda>tr format path tg. None),
      copier_copy = (\<lambda>tr i tags dest. None),
      writer_Close = (\<lambda>tr. None)\<rparr>"

definition linuxRuntime :: runtime where
  "linuxRuntime =
     \<lparr>eventChannel = False, ArchitectureChoice = [], OSChoice = [], VariantChoice = [],
      GOARCH = ''amd64'', GOOS = ''linux''\<rparr>"

definition plainOptions :: pull_options where
  "plainOptions =
     \<lparr>Architecture = [], OS = [], Variant = [], AllTags = False, Writer = False, RetryDelay = None\<rparr>"

definition noTags :: save_options where
  "noTags = \<lparr>AdditionalTags = []\<rparr>"

text \<open>A valid 64-character repository name that is not hexadecimal.\<close>

definition nonHexName :: string where
  "nonHexName = ''gggggggggggggggggggggggggggggggggggggggggggggggggggggggggggggggg''"

text \<open>A directory reference, which \<^verbatim>\<open>alltransports.ParseImageName\<close> accepts.\<close>

definition dirRefs :: references where
  "dirRefs =
     plainRefs\<lparr>ParseImageName :=
       (\<lambda>s. if s = ''dir:/tmp/img'' then Inr \<lparr>Transport_Name = ''dir'', DockerReference = None\<rparr>
            else Inl (Failure ''invalid image name''))\<rparr>"

text \<open>
  The repository \<^verbatim>\<open>quay.io/app\<close> with the tags a, b and c.  Every candidate copies, and
  the context is cancelled once an image has been stored.
\<close>

definition appRef :: image_ref where
  "appRef = \<lparr>Transport_Name = ''docker'', DockerReference = Some (Named ''quay.io/app'' None None)\<rparr>"

definition appRefs :: references where
  "appRefs =
     plainRefs\<lparr>ParseImageName :=
       (\<lambda>s. if s = ''docker://quay.io/app'' then Inr appRef else Inl (Failure ''invalid image name''))\<rparr>"

definition appCandidate :: "string \<Rightarrow> named" where
  "appCandidate n = Named (takeWhile (\<lambda>c. c \<noteq> CHR '':'') n) (Some (tl (dropWhile (\<lambda>c. c \<noteq> CHR '':'') n))) None"

definition cancelWorld :: world where
  "cancelWorld =
     emptyWorld
       \<lparr>GetRepositoryTags := (\<lambda>tr ref. Inr [''a'', ''b'', ''c'']),
        shortnames_Resolve := (\<lambda>tr n. Inr \<lparr>PullCandidates = [appCandidate n], Description = []\<rparr>),
        Copy := (\<lambda>tr c. Inr ''manifest''),
        ResolveReference := (\<lambda>tr c. Inr (Image ''4f8a'')),
        ctx_Done := (\<lambda>tr. imagesStored tr \<noteq> [])\<rparr>"

definition allTagsOptions :: pull_options where
  "allTagsOptions = plainOptions\<lparr>AllTags := True\<rparr>"

text \<open>
  The first tag of the repository, and the effects of an all-tags pull of \<open>name\<close> up to
  the end of the pull of that tag.
\<close>

definition tagA :: named where
  "tagA = Named ''quay.io/app'' (Some ''a'') None"

definition afterTagA :: "string \<Rightarrow> trace" where
  "afterTagA name =
     [Log (LogPulling name PullPolicyMissing),
      RepositoryTagsCall, ContextPoll,
      LookupImageCall ''quay.io/app:a'' (Some \<lparr>lo_Architecture = [], lo_OS = [], lo_Variant = []\<rparr>),
      ShortnameResolve ''quay.io/app:a'', NewCopier [],
      Log (LogAttempting tagA ''quay.io/app:a''),
      CopyToStore tagA True,
      RecordAlias tagA,
      Log (LogPulled tagA),
      ResolveReferenceCall (Named ''quay.io/app'' None (Some ''manifest'')),
      CopierClose]"

text \<open>An image ID with its algorithm prefix, and the short name \<^verbatim>\<open>fedora\<close>.\<close>

definition localIDName :: string where
  "localIDName = ''sha256:2c26b46b68ffc68ff99b453c1d30413413422d706483bfa0f98a5e886266e7ae''"

definition fedoraRef :: image_ref where
  "fedoraRef =
     \<lparr>Transport_Name = ''docker'',
      DockerReference = Some (Named ''docker.io/library/fedora'' (Some ''latest'') None)\<rparr>"

definition fedoraRefs :: references where
  "fedoraRefs =
     plainRefs\<lparr>ParseImageName :=
       (\<lambda>s. if s = ''docker://fedora'' then Inr fedoraRef else Inl (Failure ''invalid image name''))\<rparr>"

text \<open>A library that knows the transport \<^verbatim>\<open>oci-archive\<close> and rejects an empty reference.\<close>

definition ociRefs :: references where
  "ociRefs =
     plainRefs\<lparr>TransportFromImageName :=
       (\<lambda>s. if prefix ''oci-archive:'' s then Some ''oci-archive'' else None)\<rparr>"

text \<open>
  Two candidates for the short name \<^verbatim>\<open>app\<close>: the copy of the first fails and the copy of
  the second succeeds.  In \<open>lostWorld\<close> the image just pulled cannot be resolved in the
  store, in \<open>waterfallWorld\<close> it can.
\<close>

definition candA :: named where
  "candA = Named ''registry.a.example/app'' (Some ''latest'') None"





text \<open>
  A local image for \<^verbatim>\<open>app\<close>, one candidate, and a registry that cannot be reached for the
  comparison of the digests.
\<close>

definition newerWorld :: world where
  "newerWorld =
     emptyWorld
       \<lparr>LookupImage := (\<lambda>tr n opts. if n = ''app'' then Inr (Image ''77aa'', ''localhost/app:latest'')
                                   else Inl (StorageErrImageUnknown n)),
        shortnames_Resolve := (\<lambda>tr n. Inr \<lparr>PullCandidates = [candA], Description = []\<rparr>),
        hasDifferentDigest := (\<lambda>tr i c. Inl (Failure ''registry unreachable''))\<rparr>"

section \<open>Verified properties\<close>

subsection \<open>Reading an extended trace\<close>

lemma copiesAttempted_append [simp]:
  "copiesAttempted (xs @ ys) = copiesAttempted xs @ copiesAttempted ys"
  by (induction xs rule: copiesAttempted.induct) simp_all

lemma imagesStored_append [simp]:
  "imagesStored (xs @ ys) = imagesStored xs @ imagesStored ys"
  by (induction xs rule: imagesStored.induct) simp_all

lemma recorded_append [simp]:
  "recorded (xs @ ys) = recorded xs @ recorded ys"
  by (induction xs rule: recorded.induct) simp_all

lemma emitted_append [simp]:
  "emitted (xs @ ys) = emitted xs @ emitted ys"
  by (induction xs rule: emitted.induct) simp_all

lemma candidatesTried_append [simp]:
  "candidatesTried (xs @ ys) = candidatesTried xs @ candidatesTried ys"
  by (induction xs rule: candidatesTried.induct) simp_all

lemma archiveEntries_append [simp]:
  "archiveEntries (xs @ ys) = archiveEntries xs @ archiveEntries ys"
  by (induction xs rule: archiveEntries.induct) simp_all

lemma loggedErrors_append [simp]:
  "loggedErrors (xs @ ys) = loggedErrors xs @ loggedErrors ys"
  by (induction xs rule: loggedErrors.induct) simp_all

subsection \<open>Cancellation of an all-tags pull\<close>

text \<open>The loop over a list of tags is the loop over its front followed by the loop over its rest.\<close>

lemma copyAllTags_append:
  "copyAllTags refs w r nm pol opts (xs @ ys) ids tr =
     (case copyAllTags refs w r nm pol opts xs ids tr of
        (Inl e, tr') \<Rightarrow> (Inl e, tr')
      | (Inr ids', tr') \<Rightarrow> copyAllTags refs w r nm pol opts ys ids' tr')"
  by (induction xs arbitrary: ids tr) (simp_all split: sum.splits prod.splits)

text \<open>
  C1, as the code has it.  An all-tags pull has reached the loop over the tags: the
  configuration has loaded, the name has been parsed (directly, or again behind
  \<^verbatim>\<open>docker://\<close>) to a reference \<open>ref\<close> of the registry transport, the policy is valid and the
  registry has listed the tags.  The tags \<open>pulledTags\<close> have been pulled with the identities
  \<open>ids\<close> and the effects \<open>tr1\<close>; at the poll before the next tag the context is done.  Then
  \<^verbatim>\<open>Pull\<close> returns the error "pulling cancelled" and no identity: \<open>ids\<close> is dropped.  After
  the effects \<open>tr1\<close> of the earlier tags the code only polls the context and, with an event
  channel, emits the error event: it calls neither the store nor the registry again, so
  nothing that was pulled is removed.
\<close>

theorem C1_cancelled_all_tags_pull:
  assumes "configError w options = None"
    and "parseName refs w name pullPolicy (tr @ [Log (LogPulling name pullPolicy)])
           = (Parsed ref possiblyUnqualifiedName name', tr0)"
    and "Transport_Name ref = registryTransport_Name"
    and "DockerReference ref = Some dref"
    and "AllTags options"
    and "Validate pullPolicy = None"
    and "GetRepositoryTags w tr0 ref = Inr (pulledTags @ tg # rest)"
    and "copyAllTags refs w r (TrimNamed dref) pullPolicy (platformFromContext r options) pulledTags []
           (tr0 @ [RepositoryTagsCall]) = (Inr ids, tr1)"
    and "ctx_Done w tr1"
  shows "Pull refs w r name pullPolicy options tr =
           (Inl ErrPullingCancelled,
            tr1 @ [ContextPoll] @
              (if eventChannel r
               then [Emit \<lparr>ev_ID = [], ev_Name = name', ev_Type = EventTypeImagePullError,
                           ev_Error = Some ErrPullingCancelled\<rparr>]
               else []))"
proof -
  have ao: "AllTags (platformFromContext r options)"
    using assms(5) by (simp add: platformFromContext_def)
  have loop: "copyAllTags refs w r (TrimNamed dref) pullPolicy (platformFromContext r options)
                (pulledTags @ tg # rest) [] (tr0 @ [RepositoryTagsCall])
              = (Inl ErrPullingCancelled, tr1 @ [ContextPoll])"
    using assms(8,9) by (simp add: copyAllTags_append)
  have reg: "copyFromRegistry refs w r ref possiblyUnqualifiedName pullPolicy
               (platformFromContext r options) tr0
             = (Inl ErrPullingCancelled, tr1 @ [ContextPoll])"
    using assms(4,6,7) ao loop by (simp add: copyFromRegistry_def)
  show ?thesis
    using assms(1,2,3,5) reg
    by (simp add: Pull_def Pull_body_def Pull_main_def dispatchCopy_def)
qed

text \<open>
  The repository has the tags a, b and c, and the context is cancelled after tag a has been
  stored: \<^verbatim>\<open>Pull\<close> returns the error, not the identity of tag a, whose image is in the store.
\<close>

theorem C1_cancelled_counterexample:
  "fst (Pull appRefs cancelWorld linuxRuntime ''docker://quay.io/app'' PullPolicyMissing allTagsOptions [])
     = Inl ErrPullingCancelled
   \<and> imagesStored (snd (Pull appRefs cancelWorld linuxRuntime ''docker://quay.io/app'' PullPolicyMissing
        allTagsOptions [])) = [tagA]"
  by code_simp

text \<open>
  The theorem at the name with its transport, which is parsed directly, and at the name
  without a transport, which is parsed again behind \<^verbatim>\<open>docker://\<close>.
\<close>

theorem C1_cancelled_witness:
  "Pull appRefs cancelWorld linuxRuntime ''docker://quay.io/app'' PullPolicyMissing allTagsOptions []
     = (Inl ErrPullingCancelled, afterTagA ''docker://quay.io/app'' @ [ContextPoll])
   \<and> Pull appRefs cancelWorld linuxRuntime ''quay.io/app'' PullPolicyMissing allTagsOptions []
     = (Inl ErrPullingCancelled, afterTagA ''quay.io/app'' @ [ContextPoll])
   \<and> imagesStored (afterTagA ''quay.io/app'' @ [ContextPoll]) = [tagA]"
proof -
  have 1: "configError cancelWorld allTagsOptions = None" by code_simp
  have 2: "parseName appRefs cancelWorld ''docker://quay.io/app'' PullPolicyMissing
             ([] @ [Log (LogPulling ''docker://quay.io/app'' PullPolicyMissing)])
           = (Parsed appRef ''quay.io/app'' ''docker://quay.io/app'',
              [Log (LogPulling ''docker://quay.io/app'' PullPolicyMissing)])" by code_simp
  have 12: "parseName appRefs cancelWorld ''quay.io/app'' PullPolicyMissing
             ([] @ [Log (LogPulling ''quay.io/app'' PullPolicyMissing)])
           = (Parsed appRef ''quay.io/app'' ''quay.io/app'',
              [Log (LogPulling ''quay.io/app'' PullPolicyMissing)])" by code_simp
  have 3: "Transport_Name appRef = registryTransport_Name" by code_simp
  have 4: "DockerReference appRef = Some (Named ''quay.io/app'' None None)" by code_simp
  have 5: "AllTags allTagsOptions" by code_simp
  have 6: "Validate PullPolicyMissing = None" by code_simp
  have 7: "GetRepositoryTags cancelWorld [Log (LogPulling ''docker://quay.io/app'' PullPolicyMissing)] appRef
             = Inr ([''a''] @ ''b'' # [''c''])" by code_simp
  have 17: "GetRepositoryTags cancelWorld [Log (LogPulling ''quay.io/app'' PullPolicyMissing)] appRef
             = Inr ([''a''] @ ''b'' # [''c''])" by code_simp
  have 8: "copyAllTags appRefs cancelWorld linuxRuntime (TrimNamed (Named ''quay.io/app'' None None))
             PullPolicyMissing (platformFromContext linuxRuntime allTagsOptions) [''a''] []
             ([Log (LogPulling ''docker://quay.io/app'' PullPolicyMissing)] @ [RepositoryTagsCall])
           = (Inr [''4f8a''], afterTagA ''docker://quay.io/app'')" by code_simp
  have 18: "copyAllTags appRefs cancelWorld linuxRuntime (TrimNamed (Named ''quay.io/app'' None None))
             PullPolicyMissing (platformFromContext linuxRuntime allTagsOptions) [''a''] []
             ([Log (LogPulling ''quay.io/app'' PullPolicyMissing)] @ [RepositoryTagsCall])
           = (Inr [''4f8a''], afterTagA ''quay.io/app'')" by code_simp
  have 9: "ctx_Done cancelWorld (afterTagA ''docker://quay.io/app'')" by code_simp
  have 19: "ctx_Done cancelWorld (afterTagA ''quay.io/app'')" by code_simp
  have 10: "\<not> eventChannel linuxRuntime" by code_simp
  have 11: "imagesStored (afterTagA ''quay.io/app'' @ [ContextPoll]) = [tagA]" by code_simp
  from C1_cancelled_all_tags_pull [OF 1 2 3 4 5 6 7 8 9]
       C1_cancelled_all_tags_pull [OF 1 12 3 4 5 6 17 18 19] 10 11
  show ?thesis by simp
qed

subsection \<open>The candidate waterfall\<close>

text \<open>What one step of the waterfall adds to the effects, and what it can return.\<close>

lemma imageID_result:
  "fst (imageIDForPulledImage refs w c m t) = Inl e \<Longrightarrow>
     (\<exists>x. e = ErrExternal x) \<or> (\<exists>x. e = ErrLookingUpPulled x)"
  by (auto simp: imageIDForPulledImage_def split: sum.splits option.splits)

lemma imageID_trace:
  "copiesAttempted (snd (imageIDForPulledImage refs w c m t)) = copiesAttempted t
   \<and> imagesStored (snd (imageIDForPulledImage refs w c m t)) = imagesStored t
   \<and> recorded (snd (imageIDForPulledImage refs w c m t)) = recorded t
   \<and> emitted (snd (imageIDForPulledImage refs w c m t)) = emitted t
   \<and> candidatesTried (snd (imageIDForPulledImage refs w c m t)) = candidatesTried t
   \<and> loggedErrors (snd (imageIDForPulledImage refs w c m t)) = loggedErrors t"
  by (auto simp: imageIDForPulledImage_def split: sum.splits option.splits)

lemma writeDesc_trace:
  "writeDesc w options res wd t = (r, t') \<Longrightarrow>
     copiesAttempted t' = copiesAttempted t \<and> imagesStored t' = imagesStored t
     \<and> recorded t' = recorded t \<and> emitted t' = emitted t
     \<and> candidatesTried t' = candidatesTried t \<and> loggedErrors t' = loggedErrors t"
  by (auto simp: writeDesc_def Let_def split: if_splits)


lemma recordAndIdentify_result:
  "\<exists>t'. fst (recordAndIdentify refs w c m t) = fst (imageIDForPulledImage refs w c m t')"
  by (auto simp: recordAndIdentify_def Let_def)

lemma recordAndIdentify_trace:
  "copiesAttempted (snd (recordAndIdentify refs w c m t)) = copiesAttempted t
   \<and> imagesStored (snd (recordAndIdentify refs w c m t)) = imagesStored t
   \<and> recorded (snd (recordAndIdentify refs w c m t)) = recorded t @ [c]
   \<and> candidatesTried (snd (recordAndIdentify refs w c m t)) = candidatesTried t"
  by (simp add: recordAndIdentify_def Let_def imageID_trace split: option.splits)

lemma copyCandidate_Stop:
  assumes "copyCandidate refs w options res c errs wd tr = Stop ids tr'"
  shows "candidatesTried tr' = candidatesTried tr
       \<and> ((imagesStored tr' = imagesStored tr @ [c] \<and> recorded tr' = recorded tr @ [c]
            \<and> copiesAttempted tr' = copiesAttempted tr @ [c]
            \<and> (\<exists>m t t'. Copy w t c = Inr m \<and> ids = fst (imageIDForPulledImage refs w c m t')))
          \<or> (imagesStored tr' = imagesStored tr \<and> recorded tr' = recorded tr
            \<and> copiesAttempted tr' = copiesAttempted tr \<and> (\<exists>e. ids = Inl (ErrExternal e))))"
proof (cases "ParseStoreReference refs (named_String c)")
  case (Some e)
  with assms show ?thesis by (auto simp: copyCandidate_def)
next
  case None
  obtain dr t1 where wd: "writeDesc w options res wd tr = (dr, t1)"
    by (cases "writeDesc w options res wd tr")
  note t1 = writeDesc_trace [OF wd]
  show ?thesis
  proof (cases dr)
    case (Some e)
    with assms None wd t1 show ?thesis by (auto simp: copyCandidate_def)
  next
    case dn: None
    define t2 where "t2 = (if Writer options then t1 @ [WriterWrite (tryingToPull c)] else t1)"
    have t2: "copiesAttempted t2 = copiesAttempted tr" "imagesStored t2 = imagesStored tr"
      "recorded t2 = recorded tr" "candidatesTried t2 = candidatesTried tr"
      using t1 by (auto simp: t2_def)
    show ?thesis
    proof (cases "if Writer options then Writer_Write w t1 (tryingToPull c) else None")
      case (Some e)
      with assms None wd dn t2 show ?thesis
        by (auto simp: copyCandidate_def Let_def t2_def split: if_splits)
    next
      case wn: None
      show ?thesis
      proof (cases "Copy w t2 c")
        case (Inl e)
        with assms None wd dn wn show ?thesis
          by (auto simp: copyCandidate_def Let_def t2_def split: if_splits)
      next
        case (Inr m)
        from assms None wd dn wn Inr
        have "Stop ids tr' = (case recordAndIdentify refs w c m (t2 @ [CopyToStore c True]) of
                                (i, t6) \<Rightarrow> Stop i t6)"
          by (simp add: copyCandidate_def Let_def t2_def split: if_splits)
        then have ids: "ids = fst (recordAndIdentify refs w c m (t2 @ [CopyToStore c True]))"
          and tr': "tr' = snd (recordAndIdentify refs w c m (t2 @ [CopyToStore c True]))"
          by (auto split: prod.splits)
        from recordAndIdentify_trace [of refs w c m "t2 @ [CopyToStore c True]"] t2 tr'
        have "imagesStored tr' = imagesStored tr @ [c]" "recorded tr' = recorded tr @ [c]"
          "copiesAttempted tr' = copiesAttempted tr @ [c]" "candidatesTried tr' = candidatesTried tr"
          by simp_all
        moreover from ids recordAndIdentify_result [of refs w c m "t2 @ [CopyToStore c True]"] Inr
        have "\<exists>m t t'. Copy w t c = Inr m \<and> ids = fst (imageIDForPulledImage refs w c m t')"
          by auto
        ultimately show ?thesis by blast
      qed
    qed
  qed
qed


lemma pullCandidate_Stop:
  assumes "pullCandidate refs w pol loc options res imageName c errs wd tr = Stop ids tr'"
  shows "candidatesTried tr' = candidatesTried tr @ [c]
       \<and> ((imagesStored tr' = imagesStored tr @ [c] \<and> recorded tr' = recorded tr @ [c]
            \<and> copiesAttempted tr' = copiesAttempted tr @ [c]
            \<and> (\<exists>m t t'. Copy w t c = Inr m \<and> ids = fst (imageIDForPulledImage refs w c m t')))
          \<or> (imagesStored tr' = imagesStored tr \<and> recorded tr' = recorded tr
            \<and> copiesAttempted tr' = copiesAttempted tr \<and> (\<exists>e. ids = Inl (ErrExternal e))))"
  using assms
  by (auto simp: pullCandidate_def Let_def split: option.splits sum.splits if_splits
      dest!: copyCandidate_Stop)

lemma pullCandidate_Stop_result:
  assumes "pullCandidate refs w pol loc options res imageName c errs wd tr = Stop ids tr'"
  shows "ids \<noteq> Inl (ErrFormatPullErrors es) \<and> ids \<noteq> Inl (ErrNoImagePulled p)"
proof -
  from pullCandidate_Stop [OF assms]
  consider m t' where "ids = fst (imageIDForPulledImage refs w c m t')"
    | e where "ids = Inl (ErrExternal e)"
    by blast
  then show ?thesis
  proof cases
    case 1
    show ?thesis
    proof (cases ids)
      case (Inl e)
      with 1 imageID_result [of refs w c m t' e] show ?thesis by auto
    next
      case (Inr i)
      then show ?thesis by simp
    qed
  next
    case 2
    then show ?thesis by simp
  qed
qed

lemma newer_local_never_aggregate:
  assumes "pol = PullPolicyNewer" and "loc \<noteq> None"
  shows "fst (pullCandidates refs w pol loc rname options res imageName cands errs wd tr)
           \<noteq> Inl (ErrFormatPullErrors es)"
  using assms
proof (induction cands arbitrary: errs wd tr)
  case Nil
  then show ?case by simp
next
  case (Cons c rest)
  show ?case
  proof (cases "pullCandidate refs w pol loc options res imageName c errs wd tr")
    case (Next errs1 wd1 t1)
    with Cons show ?thesis by simp
  next
    case (Stop ids t1)
    with pullCandidate_Stop_result [OF Stop, of es] show ?thesis by simp
  qed
qed




subsection \<open>A failed comparison of digests\<close>

lemma newer_local_digest_failure_continues:
  assumes "NewReference refs c = None"
    and "hasDifferentDigest w (tr @ [Log (LogAttempting c imageName)]) img c = Inl e"
  shows "pullCandidates refs w PullPolicyNewer (Some img) rname options res imageName (c # rest) errs wd tr
         = pullCandidates refs w PullPolicyNewer (Some img) rname options res imageName rest (errs @ [e]) wd
             (tr @ [Log (LogAttempting c imageName), DigestCompare c])"
  using assms by (simp add: pullCandidate_def)

lemma newer_local_never_aggregate_pair:
  "pullCandidates refs w PullPolicyNewer (Some img) rname options res imageName cands errs wd tr
     \<noteq> (Inl (ErrFormatPullErrors es), tr')"
proof
  assume "pullCandidates refs w PullPolicyNewer (Some img) rname options res imageName cands errs wd tr
            = (Inl (ErrFormatPullErrors es), tr')"
  then have "fst (pullCandidates refs w PullPolicyNewer (Some img) rname options res imageName cands
                    errs wd tr) = Inl (ErrFormatPullErrors es)"
    by (simp only: fst_conv)
  moreover have "fst (pullCandidates refs w PullPolicyNewer (Some img) rname options res imageName cands
                        errs wd tr) \<noteq> Inl (ErrFormatPullErrors es)"
    by (rule newer_local_never_aggregate) simp_all
  ultimately show False by simp
qed

lemma resolveAndPull_newer_local:
  "fst (resolveAndPull refs w PullPolicyNewer (Some img) rname options imageName tr)
     \<noteq> Inl (ErrFormatPullErrors es)"
  by (auto simp: resolveAndPull_def Let_def newer_local_never_aggregate_pair
      split: sum.splits option.splits prod.splits)

text \<open>
  C4, as the code has it, for the waterfall under the policy newer with a local image
  \<open>img\<close>.  When the comparison of the digests fails for a candidate, the error is appended
  to the pull errors and the loop goes on with the next candidate; between the two the
  effects are the debug entry of the attempt and the comparison, and no error is logged.
  An exhausted waterfall returns the resolved name of the local image.  The aggregate of the
  pull errors is never the result of the waterfall, and never the result of
  \<^verbatim>\<open>copySingleImageFromRegistry\<close> when the lookup has found a local image and the policy in
  force is newer.
\<close>

theorem C4_digest_comparison_soft:
  "(NewReference refs c = None \<longrightarrow>
      hasDifferentDigest w (tr @ [Log (LogAttempting c imageName)]) img c = Inl e \<longrightarrow>
      pullCandidates refs w PullPolicyNewer (Some img) rname options res imageName (c # rest) errs wd tr
      = pullCandidates refs w PullPolicyNewer (Some img) rname options res imageName rest (errs @ [e]) wd
          (tr @ [Log (LogAttempting c imageName), DigestCompare c]))
   \<and> pullCandidates refs w PullPolicyNewer (Some img) rname options res imageName [] errs wd tr
       = (Inr rname, tr)
   \<and> (\<forall>es. fst (pullCandidates refs w PullPolicyNewer (Some img) rname options res imageName cands errs wd tr)
           \<noteq> Inl (ErrFormatPullErrors es))
   \<and> (fst (lookupLocal w r name options tr) = Some img \<longrightarrow>
        effectivePolicy options pullPolicy = PullPolicyNewer \<longrightarrow>
        (\<forall>es. fst (copySingleImageFromRegistry refs w r name pullPolicy options tr)
           \<noteq> Inl (ErrFormatPullErrors es)))"
proof (intro conjI impI allI)
  assume "NewReference refs c = None"
    and "hasDifferentDigest w (tr @ [Log (LogAttempting c imageName)]) img c = Inl e"
  then show "pullCandidates refs w PullPolicyNewer (Some img) rname options res imageName (c # rest) errs wd tr
      = pullCandidates refs w PullPolicyNewer (Some img) rname options res imageName rest (errs @ [e]) wd
          (tr @ [Log (LogAttempting c imageName), DigestCompare c])"
    by (rule newer_local_digest_failure_continues)
next
  show "pullCandidates refs w PullPolicyNewer (Some img) rname options res imageName [] errs wd tr
       = (Inr rname, tr)" by simp
next
  fix es
  show "fst (pullCandidates refs w PullPolicyNewer (Some img) rname options res imageName cands errs wd tr)
           \<noteq> Inl (ErrFormatPullErrors es)"
    by (rule newer_local_never_aggregate) simp_all
next
  fix es
  assume loc: "fst (lookupLocal w r name options tr) = Some img"
    and pol: "effectivePolicy options pullPolicy = PullPolicyNewer"
  obtain rn t1 where ll: "lookupLocal w r name options tr = (Some img, rn, t1)"
    using loc by (cases "lookupLocal w r name options tr") auto
  show "fst (copySingleImageFromRegistry refs w r name pullPolicy options tr)
           \<noteq> Inl (ErrFormatPullErrors es)"
    using ll pol resolveAndPull_newer_local [of refs w img rn options name _ es]
    by (auto simp: copySingleImageFromRegistry_def Validate_def Let_def split: if_splits)
qed

text \<open>
  The registry cannot be reached for the comparison.  The pull returns the resolved name of
  the local image, and its effects hold no log entry of an error: the failure of the
  comparison is not logged.
\<close>

theorem C4_not_logged_counterexample:
  "hasDifferentDigest newerWorld [] (Image ''77aa'') candA = Inl (Failure ''registry unreachable'')
   \<and> copySingleImageFromRegistry plainRefs newerWorld linuxRuntime ''app'' PullPolicyNewer plainOptions []
       = (Inr ''localhost/app:latest'',
          [LookupImageCall ''app'' (Some \<lparr>lo_Architecture = [], lo_OS = [], lo_Variant = []\<rparr>),
           CorruptionCheck ''app'',
           Log (LogResolvedLocal ''app'' ''localhost/app:latest''),
           ShortnameResolve ''localhost/app:latest'', NewCopier [],
           Log (LogAttempting candA ''localhost/app:latest''),
           DigestCompare candA,
           CopierClose])
   \<and> loggedErrors (snd (copySingleImageFromRegistry plainRefs newerWorld linuxRuntime ''app''
        PullPolicyNewer plainOptions [])) = []"
  by code_simp

theorem C4_digest_comparison_soft_witness:
  "pullCandidates plainRefs newerWorld PullPolicyNewer (Some (Image ''77aa'')) ''localhost/app:latest''
     plainOptions \<lparr>PullCandidates = [candA], Description = []\<rparr> ''localhost/app:latest''
     (candA # []) [] False []
     = pullCandidates plainRefs newerWorld PullPolicyNewer (Some (Image ''77aa'')) ''localhost/app:latest''
         plainOptions \<lparr>PullCandidates = [candA], Description = []\<rparr> ''localhost/app:latest''
         [] ([] @ [Failure ''registry unreachable'']) False
         ([] @ [Log (LogAttempting candA ''localhost/app:latest''), DigestCompare candA])
   \<and> fst (copySingleImageFromRegistry plainRefs newerWorld linuxRuntime ''app'' PullPolicyNewer
           plainOptions [])
       \<noteq> Inl (ErrFormatPullErrors [Failure ''registry unreachable''])"
proof -
  have 1: "NewReference plainRefs candA = None" by code_simp
  have 2: "hasDifferentDigest newerWorld ([] @ [Log (LogAttempting candA ''localhost/app:latest'')])
             (Image ''77aa'') candA = Inl (Failure ''registry unreachable'')" by code_simp
  have 3: "fst (lookupLocal newerWorld linuxRuntime ''app'' plainOptions []) = Some (Image ''77aa'')"
    by code_simp
  have 4: "effectivePolicy plainOptions PullPolicyNewer = PullPolicyNewer" by code_simp
  from C4_digest_comparison_soft
         [where refs = plainRefs and w = newerWorld and c = candA and tr = "[]"
            and imageName = "''localhost/app:latest''" and img = "Image ''77aa''"
            and e = "Failure ''registry unreachable''" and rname = "''localhost/app:latest''"
            and options = plainOptions and res = "\<lparr>PullCandidates = [candA], Description = []\<rparr>"
            and rest = "[]" and errs = "[]" and wd = False and r = linuxRuntime and name = "''app''"
            and pullPolicy = PullPolicyNewer]
       1 2 3 4
  show ?thesis by blast
qed

subsection \<open>The error kind of a missing image\<close>

text \<open>
  C2.  The documentation of \<^verbatim>\<open>Pull\<close> says that the error is \<^verbatim>\<open>storage.ErrImageUnknown\<close> if
  and only if the policy is never and no local image has been found.  A name with the
  prefix \<^verbatim>\<open>sha256:\<close> is looked up at line 105 under every policy but always, and the store's
  error is returned as it is: under the policy missing, with no such image in the store,
  \<^verbatim>\<open>Pull\<close> returns an error of the kind \<^verbatim>\<open>ErrImageUnknown\<close>.
\<close>

theorem C2_image_unknown_without_never:
  "Pull plainRefs emptyWorld linuxRuntime localIDName PullPolicyMissing plainOptions []
     = (Inl (ErrExternal (StorageErrImageUnknown localIDName)),
        [Log (LogPulling localIDName PullPolicyMissing), LookupImageCall localIDName None])
   \<and> is_ErrImageUnknown (ErrExternal (StorageErrImageUnknown localIDName))"
  by code_simp

subsection \<open>Names that no transport parses\<close>

text \<open>A name the spec calls ID-shaped is one the source looks up locally.\<close>

lemma spec_id_is_local_id:
  assumes "spec_refersToLocalID name"
  shows "refersToLocalID name"
proof (cases "prefix ''sha256:'' name")
  case True
  then show ?thesis by (simp add: refersToLocalID_def)
next
  case False
  with assms have len: "length name = 64" and hex: "list_all isHexDigit name"
    by (auto simp: spec_refersToLocalID_def)
  have "\<not> ContainsAny name ''/.:@''"
  proof
    assume "ContainsAny name ''/.:@''"
    then obtain c where c: "c \<in> set name" and sep: "List.member ''/.:@'' c"
      by (auto simp: ContainsAny_def list_ex_iff)
    from hex c have "isHexDigit c" by (simp add: list_all_iff)
    with sep show False by (auto simp: isHexDigit_def)
  qed
  with len show ?thesis by (simp add: refersToLocalID_def)
qed

text \<open>
  C8, as the code has it, for a name that \<^verbatim>\<open>alltransports.ParseImageName\<close> rejects.
  A name that starts with a known transport other than docker returns the parse error.
  Of the other names, a 64-character hex string or a name with the prefix \<^verbatim>\<open>sha256:\<close> is
  looked up locally, and so is every other name of 64 characters without any of the
  characters \<^verbatim>\<open>/.:@\<close>.  For such a name the policy always fails, with the by-ID error
  once the configuration has loaded, without a call to the store or the registry, whatever
  the store holds; every other policy returns what the one lookup in the store returns.
  Any other name is normalised and parsed again behind \<^verbatim>\<open>docker://\<close>, and the normalised
  name is the one short-name resolution gets.
\<close>

theorem C8_unparsable_name:
  assumes "ParseImageName refs name = Inl err"
  shows "(spec_refersToLocalID name \<longrightarrow> refersToLocalID name)
       \<and> (namesOtherTransport refs name \<longrightarrow>
            parseName refs w name pullPolicy tr = (Done (Inl (ErrExternal err)) name, tr))
       \<and> (\<not> namesOtherTransport refs name \<longrightarrow> refersToLocalID name \<longrightarrow>
            pullPolicy = PullPolicyAlways \<longrightarrow>
            fst (Pull refs w r name pullPolicy options tr)
              = Inl (case configError w options of
                       Some cerr \<Rightarrow> cerr
                     | None \<Rightarrow> ErrAlwaysByID name)
            \<and> filter touchesStoreOrRegistry (snd (Pull refs w r name pullPolicy options tr))
                = filter touchesStoreOrRegistry tr)
       \<and> (\<not> namesOtherTransport refs name \<longrightarrow> refersToLocalID name \<longrightarrow>
            pullPolicy \<noteq> PullPolicyAlways \<longrightarrow> configError w options = None \<longrightarrow>
            fst (Pull refs w r name pullPolicy options tr)
              = (case LookupImage w (tr @ [Log (LogPulling name pullPolicy)]) name None of
                   Inl lerr \<Rightarrow> Inl (ErrExternal lerr)
                 | Inr (img, resolvedName) \<Rightarrow> Inr [img])
            \<and> filter touchesStoreOrRegistry (snd (Pull refs w r name pullPolicy options tr))
                = filter touchesStoreOrRegistry tr @ [LookupImageCall name None])
       \<and> (\<not> namesOtherTransport refs name \<longrightarrow> \<not> refersToLocalID name \<longrightarrow>
            parseName refs w name pullPolicy tr
              = (case normalizeTaggedDigestedString refs name of
                   Inl normalizeError \<Rightarrow> (Done (Inl (ErrParsingReference name normalizeError)) name, tr)
                 | Inr normalizedName \<Rightarrow>
                     (case ParseImageName refs (''docker://'' @ normalizedName) of
                        Inl dockerErr \<Rightarrow> (Done (Inl (ErrExternal err)) normalizedName, tr)
                      | Inr dockerRef \<Rightarrow> (Parsed dockerRef normalizedName normalizedName, tr))))"
  using assms spec_id_is_local_id [of name]
  by (auto simp: Pull_def Pull_body_def Pull_main_def parseName_def split: sum.splits option.splits)

text \<open>
  A repository name of 64 letters g is not a hex string and has no \<^verbatim>\<open>sha256:\<close> prefix, and
  it is looked up locally all the same: the policy always fails with the by-ID error, and the
  policy missing asks the store and nothing else.
\<close>

theorem C8_non_hex_counterexample:
  "\<not> spec_refersToLocalID nonHexName
   \<and> Pull plainRefs emptyWorld linuxRuntime nonHexName PullPolicyAlways plainOptions []
       = (Inl (ErrAlwaysByID nonHexName), [Log (LogPulling nonHexName PullPolicyAlways)])
   \<and> Pull plainRefs emptyWorld linuxRuntime nonHexName PullPolicyMissing plainOptions []
       = (Inl (ErrExternal (StorageErrImageUnknown nonHexName)),
          [Log (LogPulling nonHexName PullPolicyMissing), LookupImageCall nonHexName None])"
  by code_simp

theorem C8_unparsable_name_witness:
  "refersToLocalID localIDName
   \<and> fst (Pull plainRefs emptyWorld linuxRuntime localIDName PullPolicyAlways plainOptions [])
       = Inl (ErrAlwaysByID localIDName)
   \<and> fst (Pull plainRefs emptyWorld linuxRuntime localIDName PullPolicyNever plainOptions [])
       = Inl (ErrExternal (StorageErrImageUnknown localIDName))
   \<and> parseName fedoraRefs emptyWorld ''fedora'' PullPolicyAlways [] = (Parsed fedoraRef ''fedora'' ''fedora'', [])
   \<and> parseName ociRefs emptyWorld ''oci-archive:'' PullPolicyAlways []
       = (Done (Inl (ErrExternal (Failure ''invalid image name''))) ''oci-archive:'', [])"
proof -
  have 1: "ParseImageName plainRefs localIDName = Inl (Failure ''invalid image name'')" by code_simp
  have 2: "\<not> namesOtherTransport plainRefs localIDName" by code_simp
  have 3: "spec_refersToLocalID localIDName" by code_simp
  have 4: "configError emptyWorld plainOptions = None" by code_simp
  have 5: "LookupImage emptyWorld ([] @ [Log (LogPulling localIDName PullPolicyNever)]) localIDName None
             = Inl (StorageErrImageUnknown localIDName)" by code_simp
  have 6: "ParseImageName fedoraRefs ''fedora'' = Inl (Failure ''invalid image name'')" by code_simp
  have 7: "\<not> namesOtherTransport fedoraRefs ''fedora''" by code_simp
  have 8: "\<not> refersToLocalID ''fedora''" by code_simp
  have 9: "normalizeTaggedDigestedString fedoraRefs ''fedora'' = Inr ''fedora''" by code_simp
  have 10: "ParseImageName fedoraRefs (''docker://'' @ ''fedora'') = Inr fedoraRef" by code_simp
  have 11: "ParseImageName ociRefs ''oci-archive:'' = Inl (Failure ''invalid image name'')" by code_simp
  have 12: "namesOtherTransport ociRefs ''oci-archive:''" by code_simp
  from C8_unparsable_name [OF 1, where pullPolicy = PullPolicyAlways and w = emptyWorld
         and r = linuxRuntime and options = plainOptions and tr = "[]"]
       C8_unparsable_name [OF 1, where pullPolicy = PullPolicyNever and w = emptyWorld
         and r = linuxRuntime and options = plainOptions and tr = "[]"]
       C8_unparsable_name [OF 6, where pullPolicy = PullPolicyAlways and w = emptyWorld
         and r = linuxRuntime and options = plainOptions and tr = "[]"]
       C8_unparsable_name [OF 11, where pullPolicy = PullPolicyAlways and w = emptyWorld
         and r = linuxRuntime and options = plainOptions and tr = "[]"]
       2 3 4 5 7 8 9 10 12
  show ?thesis by simp
qed

subsection \<open>All tags of a transport other than the registry\<close>

text \<open>
  C10.  When the name parses to a reference of a transport other than docker and all tags
  are requested, \<^verbatim>\<open>Pull\<close> fails: with the configuration's error if the default
  configuration fails to load, and with the error of line 142 otherwise.  Among its
  effects there is no call to the local store, the resolver or a transport.
\<close>

theorem C10_all_tags_other_transport:
  assumes "ParseImageName refs name = Inr ref"
    and "Transport_Name ref \<noteq> registryTransport_Name"
    and "AllTags options"
  shows "fst (Pull refs w r name pullPolicy options tr) =
           Inl (case configError w options of
                  Some err \<Rightarrow> err
                | None \<Rightarrow> ErrAllTagsUnsupported (Transport_Name ref))
         \<and> filter touchesStoreOrRegistry (snd (Pull refs w r name pullPolicy options tr))
             = filter touchesStoreOrRegistry tr"
  using assms
  by (simp add: Pull_def Pull_body_def Pull_main_def parseName_def split: option.splits)

theorem C10_all_tags_other_transport_witness:
  "fst (Pull dirRefs emptyWorld linuxRuntime ''dir:/tmp/img'' PullPolicyMissing allTagsOptions [])
     = Inl (ErrAllTagsUnsupported ''dir'')
   \<and> filter touchesStoreOrRegistry
        (snd (Pull dirRefs emptyWorld linuxRuntime ''dir:/tmp/img'' PullPolicyMissing allTagsOptions [])) = []"
proof -
  have 1: "ParseImageName dirRefs ''dir:/tmp/img'' = Inr \<lparr>Transport_Name = ''dir'', DockerReference = None\<rparr>"
    by code_simp
  have 2: "Transport_Name \<lparr>Transport_Name = ''dir'', DockerReference = None\<rparr> \<noteq> registryTransport_Name"
    by code_simp
  have 3: "AllTags allTagsOptions" by code_simp
  have 4: "configError emptyWorld allTagsOptions = None" by code_simp
  from C10_all_tags_other_transport [OF 1 2 3, of emptyWorld linuxRuntime PullPolicyMissing "[]"] 4
  show ?thesis by simp
qed

end
